theory Spec2Isabelle
  imports
    Complex_Main
    "HOL-Library.AList"
    "HOL-Library.Sublist"
    "HOL-Library.Multiset"
begin

section \<open>Pet-Care-Advisor: the diagnostic core\<close>

text \<open>
  A shallow embedding of \<^verbatim>\<open>app/models/knowledge_base.py\<close>, \<^verbatim>\<open>app/models/pet.py\<close>,
  \<^verbatim>\<open>app/utils/rule_processor.py\<close> and \<^verbatim>\<open>app/utils/inference_engine.py\<close>.

  Conventions of the embedding.
  \<^item> A Python \<^verbatim>\<open>str\<close> is a \<open>string\<close>; the identifiers of the data files are ASCII.
  \<^item> A Python \<^verbatim>\<open>float\<close> is an exact rational (\<open>rat\<close>): the scores are quotients of small
    integers and products with the multipliers of the rule table, and no property below
    depends on rounding. NaN and the infinities are outside the model.
  \<^item> A Python \<^verbatim>\<open>dict\<close> is an association list in insertion order; item assignment is
    \<open>AList.update\<close> (an existing key keeps its place, a new key goes to the end),
    \<^verbatim>\<open>d.get(k)\<close> is \<open>map_of\<close>, \<^verbatim>\<open>d.values()\<close> is \<open>values\<close>.
  \<^item> A \<^verbatim>\<open>for\<close> loop that appends to a list is a \<open>fold\<close> over the iterated sequence.
\<close>

subsection \<open>Dictionaries\<close>

type_synonym ('k, 'v) dict = "('k \<times> 'v) list"

definition "values" :: "('k, 'v) dict \<Rightarrow> 'v list" where
  "values d = map snd d"

definition items :: "('k, 'v) dict \<Rightarrow> ('k \<times> 'v) list" where
  "items d = d"

definition setitem :: "('k, 'v) dict \<Rightarrow> 'k \<Rightarrow> 'v \<Rightarrow> ('k, 'v) dict" where
  "setitem d k v = AList.update k v d"

definition get_default :: "('k, 'v) dict \<Rightarrow> 'k \<Rightarrow> 'v \<Rightarrow> 'v" where
  "get_default d k dflt = (case map_of d k of None \<Rightarrow> dflt | Some v \<Rightarrow> v)"

subsection \<open>The data model (\<^verbatim>\<open>knowledge_base.py\<close>)\<close>

record Symptom =
  s_id :: string
  s_name :: string
  s_category :: string
  severity_levels :: "string list"
  s_description :: string
  common_pets :: "string list"

record Condition =
  c_id :: string
  c_name :: string
  c_category :: string
  c_severity :: string
  required_symptoms :: "string list"
  optional_symptoms :: "string list"
  exclusion_symptoms :: "string list"
  confidence_threshold :: rat
  c_description :: string
  emergency_level :: string

record Treatment =
  t_id :: string
  condition_id :: string
  treatment_type :: string
  t_description :: string
  instructions :: "string list"
  duration :: string
  precautions :: "string list"
  when_to_seek_help :: "string list"

text \<open>
  \<^verbatim>\<open>rules.json\<close> is read as it is. The code looks at
  \<^verbatim>\<open>rules['species'][<species>]['risk_factors']\<close> and
  \<^verbatim>\<open>rules['age_categories'][<category>]['risk_factors']\<close>; an entry without the key
  \<^verbatim>\<open>'risk_factors'\<close> has \<open>risk_factors = None\<close>, and a table without \<^verbatim>\<open>'species'\<close> or
  \<^verbatim>\<open>'age_categories'\<close> has the empty dictionary there (what \<^verbatim>\<open>.get(key, {})\<close> gives).
\<close>

record rule_entry =
  risk_factors :: "(string, rat) dict option"

record pet_rules =
  rules_species :: "(string, rule_entry) dict"
  rules_age_categories :: "(string, rule_entry) dict"

record KnowledgeBase =
  symptoms :: "(string, Symptom) dict"
  conditions :: "(string, Condition) dict"
  treatments :: "(string, Treatment) dict"
  pet_specific_rules :: pet_rules

subsection \<open>\<^verbatim>\<open>KnowledgeBase.get_conditions_for_symptoms\<close>\<close>

definition required_match :: "Condition \<Rightarrow> string list \<Rightarrow> bool" where
  "required_match condition symptom_ids =
     list_all (\<lambda>req_symptom. req_symptom \<in> set symptom_ids) (required_symptoms condition)"

definition exclusion_conflict :: "Condition \<Rightarrow> string list \<Rightarrow> bool" where
  "exclusion_conflict condition symptom_ids =
     list_ex (\<lambda>excl_symptom. excl_symptom \<in> set symptom_ids) (exclusion_symptoms condition)"

definition get_conditions_for_symptoms :: "KnowledgeBase \<Rightarrow> string list \<Rightarrow> Condition list" where
  "get_conditions_for_symptoms kb symptom_ids =
     fold (\<lambda>condition matching_conditions.
             if required_match condition symptom_ids \<and> \<not> exclusion_conflict condition symptom_ids
             then matching_conditions @ [condition]
             else matching_conditions)
          (values (conditions kb)) []"

subsection \<open>\<^verbatim>\<open>KnowledgeBase.calculate_confidence\<close>\<close>

text \<open>\<^verbatim>\<open>sum(w for symptom in xs if symptom in present_symptoms)\<close>\<close>

definition weighted_matches :: "nat \<Rightarrow> string list \<Rightarrow> string list \<Rightarrow> nat" where
  "weighted_matches w xs present_symptoms =
     sum_list (map (\<lambda>symptom. w) (filter (\<lambda>symptom. symptom \<in> set present_symptoms) xs))"

definition calculate_confidence :: "Condition \<Rightarrow> string list \<Rightarrow> rat" where
  "calculate_confidence condition present_symptoms =
     (let total_possible =
            length (required_symptoms condition) + length (optional_symptoms condition)
      in if total_possible = 0 then 0
         else
           let required_score = weighted_matches 2 (required_symptoms condition) present_symptoms;
               optional_score = weighted_matches 1 (optional_symptoms condition) present_symptoms;
               max_possible_score =
                 length (required_symptoms condition) * 2 + length (optional_symptoms condition);
               confidence = of_nat (required_score + optional_score) / of_nat max_possible_score
           in min confidence 1)"

text \<open>The number of entries of \<open>xs\<close> that are among the reported symptoms.\<close>

definition matches :: "string list \<Rightarrow> string list \<Rightarrow> nat" where
  "matches xs present_symptoms = length (filter (\<lambda>symptom. symptom \<in> set present_symptoms) xs)"

subsection \<open>Strings\<close>

text \<open>
  \<^verbatim>\<open>str.lower\<close>, \<^verbatim>\<open>str.title\<close> and \<^verbatim>\<open>str.replace('_', ' ')\<close> on ASCII text; a character
  that is not an ASCII letter is left as it is and counts as uncased.
\<close>

definition ascii_lowercase :: string where
  "ascii_lowercase = ''abcdefghijklmnopqrstuvwxyz''"

definition ascii_uppercase :: string where
  "ascii_uppercase = ''ABCDEFGHIJKLMNOPQRSTUVWXYZ''"

definition char_lower :: "char \<Rightarrow> char" where
  "char_lower c = get_default (zip ascii_uppercase ascii_lowercase) c c"

definition char_upper :: "char \<Rightarrow> char" where
  "char_upper c = get_default (zip ascii_lowercase ascii_uppercase) c c"

definition lower :: "string \<Rightarrow> string" where
  "lower s = map char_lower s"

text \<open>
  \<^verbatim>\<open>str.title\<close>: a letter that follows an uncased character (or starts the string) is
  upper-cased, a letter that follows a letter is lower-cased.
\<close>

fun title_from :: "bool \<Rightarrow> string \<Rightarrow> string" where
  "title_from previous_is_cased [] = []"
| "title_from previous_is_cased (c # cs) =
     (if c \<in> set ascii_lowercase then
        (if previous_is_cased then c else char_upper c) # title_from True cs
      else if c \<in> set ascii_uppercase then
        (if previous_is_cased then char_lower c else c) # title_from True cs
      else c # title_from False cs)"

definition title :: "string \<Rightarrow> string" where
  "title s = title_from False s"

definition replace_underscores :: "string \<Rightarrow> string" where
  "replace_underscores s = map (\<lambda>c. if c = CHR ''_'' then CHR '' '' else c) s"

text \<open>\<^verbatim>\<open>needle in haystack\<close> on strings: \<open>needle\<close> occurs as a contiguous substring.\<close>

definition str_contains :: "string \<Rightarrow> string \<Rightarrow> bool" where
  "str_contains needle haystack = sublist needle haystack"

text \<open>\<^verbatim>\<open>sep.join(parts)\<close>\<close>

fun join :: "string \<Rightarrow> string list \<Rightarrow> string" where
  "join sep [] = []"
| "join sep [x] = x"
| "join sep (x # y # ys) = x @ sep @ join sep (y # ys)"

subsection \<open>\<^verbatim>\<open>pet.py\<close>\<close>

record Pet =
  p_name :: string
  species :: string
  breed :: "string option"
  age :: rat
  weight :: "rat option"
  gender :: string
  medical_history :: "string list"
  current_medications :: "string list"
  allergies :: "string list"
  last_vet_visit :: "string option"

definition get_age_category :: "Pet \<Rightarrow> string" where
  "get_age_category self =
     (if lower (species self) = ''dog'' then
        (if age self < 1 / 2 then ''puppy''
         else if age self < 7 then ''adult''
         else ''senior'')
      else if lower (species self) = ''cat'' then
        (if age self < 1 / 2 then ''kitten''
         else if age self < 10 then ''adult''
         else ''senior'')
      else ''unknown'')"

definition is_senior :: "Pet \<Rightarrow> bool" where
  "is_senior self = (get_age_category self = ''senior'')"

text \<open>
  The timestamp is kept as the caller gave it (seconds since the epoch); its rendering by
  \<^verbatim>\<open>isoformat\<close> is not part of the model. The detail payload of a symptom is free text.
\<close>

record DiagnosisSession =
  pet :: Pet
  reported_symptoms :: "string list"
  symptom_details :: "(string, string) dict"
  timestamp :: nat
  session_id :: string

subsection \<open>\<^verbatim>\<open>RuleProcessor.apply_pet_specific_rules\<close>\<close>

record assessment =
  risk_multipliers :: "(string, rat) dict"
  additional_symptoms :: "string list"
  exclusions :: "string list"
  urgency_modifiers :: "(string, rat) dict"

definition no_rules :: rule_entry where
  "no_rules = \<lparr>risk_factors = None\<rparr>"

text \<open>The loop over the species' factors: plain assignment.\<close>

definition apply_species_factors :: "(string, rat) dict \<Rightarrow> (string, rat) dict \<Rightarrow> (string, rat) dict" where
  "apply_species_factors factors multipliers =
     fold (\<lambda>(condition_id, multiplier) ms. setitem ms condition_id multiplier)
          (items factors) multipliers"

text \<open>The loop over the age category's factors: \<^verbatim>\<open>*=\<close> on a key already there.\<close>

definition apply_age_factors :: "(string, rat) dict \<Rightarrow> (string, rat) dict \<Rightarrow> (string, rat) dict" where
  "apply_age_factors factors multipliers =
     fold (\<lambda>(condition_id, multiplier) ms.
             case map_of ms condition_id of
               Some current \<Rightarrow> setitem ms condition_id (current * multiplier)
             | None \<Rightarrow> setitem ms condition_id multiplier)
          (items factors) multipliers"

definition apply_pet_specific_rules :: "KnowledgeBase \<Rightarrow> Pet \<Rightarrow> string list \<Rightarrow> assessment" where
  "apply_pet_specific_rules kb p symptom_ids =
     (let rules = pet_specific_rules kb;
          species_rules = get_default (rules_species rules) (lower (species p)) no_rules;
          age_rules = get_default (rules_age_categories rules) (get_age_category p) no_rules;
          multipliers0 = [];
          multipliers1 = (case risk_factors species_rules of
                            None \<Rightarrow> multipliers0
                          | Some factors \<Rightarrow> apply_species_factors factors multipliers0);
          multipliers2 = (case risk_factors age_rules of
                            None \<Rightarrow> multipliers1
                          | Some factors \<Rightarrow> apply_age_factors factors multipliers1)
      in \<lparr>risk_multipliers = multipliers2, additional_symptoms = [],
          exclusions = [], urgency_modifiers = []\<rparr>)"

subsection \<open>\<^verbatim>\<open>RuleProcessor.check_emergency_conditions\<close>\<close>

definition emergency_symptoms :: "(string, string) dict" where
  "emergency_symptoms =
     [(''difficulty_breathing'', ''critical''),
      (''severe_bleeding'', ''critical''),
      (''unconscious'', ''critical''),
      (''seizures'', ''critical''),
      (''severe_trauma'', ''critical''),
      (''bloated_abdomen'', ''high''),
      (''persistent_vomiting'', ''high''),
      (''inability_to_urinate'', ''high'')]"

definition emergency_alert :: "string \<Rightarrow> string" where
  "emergency_alert symptom =
     ''URGENT: '' @ title (replace_underscores symptom) @
     '' requires immediate veterinary attention''"

definition emergency_step :: "string \<Rightarrow> string list \<times> string \<Rightarrow> string list \<times> string" where
  "emergency_step symptom st =
     (case st of (emergency_alerts, max_urgency) \<Rightarrow>
        (case map_of emergency_symptoms symptom of
           None \<Rightarrow> (emergency_alerts, max_urgency)
         | Some urgency \<Rightarrow>
             (emergency_alerts @ [emergency_alert symptom],
              if urgency = ''critical'' then ''critical''
              else if urgency = ''high'' \<and> max_urgency \<noteq> ''critical'' then ''high''
              else max_urgency)))"

definition check_emergency_conditions :: "string list \<Rightarrow> Pet \<Rightarrow> bool \<times> string list" where
  "check_emergency_conditions symptom_ids p =
     (case fold emergency_step symptom_ids ([], ''low'') of
        (emergency_alerts, max_urgency) \<Rightarrow>
          (max_urgency \<in> set [''high'', ''critical''], emergency_alerts))"

subsection \<open>\<^verbatim>\<open>RuleProcessor.apply_exclusion_rules\<close>\<close>

definition species_exclusions :: "(string, string list) dict" where
  "species_exclusions =
     [(''feline_only'', [''dog'', ''bird'', ''rabbit'']),
      (''canine_only'', [''cat'', ''bird'', ''rabbit''])]"

text \<open>The loop over \<^verbatim>\<open>species_exclusions.items()\<close>, left by \<^verbatim>\<open>break\<close> at the first hit.\<close>

fun species_exclusion_loop ::
  "(string \<times> string list) list \<Rightarrow> Condition \<Rightarrow> Pet \<Rightarrow> bool \<Rightarrow> bool" where
  "species_exclusion_loop [] condition p exclude = exclude"
| "species_exclusion_loop ((exclusion_type, excluded_species) # rest) condition p exclude =
     (if str_contains exclusion_type (c_id condition) \<and>
         lower (species p) \<in> set excluded_species
      then True
      else species_exclusion_loop rest condition p exclude)"

definition excluded :: "Condition \<Rightarrow> Pet \<Rightarrow> bool" where
  "excluded condition p =
     (let exclude0 = False;
          exclude1 = (if age p < 1 \<and> str_contains ''adult_only'' (c_id condition) then True
                      else if age p > 10 \<and> str_contains ''young_only'' (c_id condition) then True
                      else exclude0)
      in species_exclusion_loop (items species_exclusions) condition p exclude1)"

definition apply_exclusion_rules :: "Condition list \<Rightarrow> string list \<Rightarrow> Pet \<Rightarrow> Condition list" where
  "apply_exclusion_rules conds symptom_ids p =
     fold (\<lambda>condition filtered_conditions.
             if \<not> excluded condition p then filtered_conditions @ [condition]
             else filtered_conditions)
          conds []"

subsection \<open>\<^verbatim>\<open>InferenceEngine.diagnose\<close>\<close>

record score =
  condition :: Condition
  confidence :: rat
  base_confidence :: rat
  risk_multiplier :: rat

record treatment_advice =
  r_treatment_type :: string
  r_description :: string
  r_instructions :: "string list"
  r_duration :: string
  r_precautions :: "string list"
  r_seek_help_if :: "string list"

text \<open>
  The recommendation dictionary has one of two shapes: the generic advice (keys
  \<^verbatim>\<open>primary_action\<close>, \<^verbatim>\<open>home_care\<close>, \<^verbatim>\<open>vet_consultation\<close>) or the primary diagnosis (keys
  \<^verbatim>\<open>primary_diagnosis\<close>, \<^verbatim>\<open>confidence\<close>, \<^verbatim>\<open>severity\<close>, and the six treatment keys when a
  treatment was found).
\<close>

datatype recommendation_dict =
  Generic_advice string "string list" string
| Primary_diagnosis string rat string "treatment_advice option"

text \<open>
  The result dictionary: the emergency shape (keys \<^verbatim>\<open>emergency\<close>, \<^verbatim>\<open>alerts\<close>,
  \<^verbatim>\<open>recommendation\<close>, \<^verbatim>\<open>confidence\<close>, \<^verbatim>\<open>conditions\<close>) or the normal one.
\<close>

datatype diagnosis_result =
  Emergency_result
    (alerts: "string list")
    (recommendation: string)
    (result_confidence: rat)
    (result_conditions: "score list")
| Normal_result
    (result_conditions: "score list")
    (recommendations: recommendation_dict)
    (pet_specific_notes: "string list")
    (follow_up_questions: "string list")
    (result_session_id: string)
    (result_timestamp: nat)

fun emergency :: "diagnosis_result \<Rightarrow> bool" where
  "emergency (Emergency_result a r c cs) = True"
| "emergency (Normal_result cs r n q s t) = False"

definition treatment_fields :: "Treatment \<Rightarrow> treatment_advice" where
  "treatment_fields treatment =
     \<lparr>r_treatment_type = treatment_type treatment,
      r_description = t_description treatment,
      r_instructions = instructions treatment,
      r_duration = duration treatment,
      r_precautions = precautions treatment,
      r_seek_help_if = when_to_seek_help treatment\<rparr>"

definition generate_recommendations :: "KnowledgeBase \<Rightarrow> score list \<Rightarrow> Pet \<Rightarrow> recommendation_dict" where
  "generate_recommendations kb conds p =
     (case conds of
        [] \<Rightarrow> Generic_advice
                ''Monitor symptoms and consult veterinarian if they persist''
                [''Ensure pet is comfortable'', ''Monitor for changes'']
                ''Recommended if symptoms worsen or persist beyond 24-48 hours''
      | top_condition # _ \<Rightarrow>
          (let cid = c_id (condition top_condition);
               found = filter (\<lambda>t. condition_id t = cid) (values (treatments kb))
           in Primary_diagnosis
                (c_name (condition top_condition))
                (confidence top_condition)
                (c_severity (condition top_condition))
                (case found of [] \<Rightarrow> None | treatment # _ \<Rightarrow> Some (treatment_fields treatment))))"

definition generate_pet_specific_notes :: "Pet \<Rightarrow> string list \<Rightarrow> string list" where
  "generate_pet_specific_notes p symptom_ids =
     (let notes0 = [];
          notes1 = (if is_senior p
                    then notes0 @ [''Senior pets may require more frequent monitoring and veterinary care.'']
                    else notes0);
          notes2 = (if age p < 1
                    then notes1 @ [''Young pets can deteriorate quickly - monitor closely for changes.'']
                    else notes1);
          notes3 = (if medical_history p \<noteq> []
                    then notes2 @ [''Consider pet's medical history when evaluating symptoms.'']
                    else notes2);
          notes4 = (if current_medications p \<noteq> []
                    then notes3 @ [''Current medications may affect symptoms or treatment options.'']
                    else notes3)
      in notes4)"

definition generate_follow_up_questions :: "score list \<Rightarrow> string list" where
  "generate_follow_up_questions conds =
     (case conds of
        [] \<Rightarrow> [''How long have the symptoms been present?'',
               ''Have you noticed any changes in eating or drinking habits?'',
               ''Has your pet been exposed to any new environments or animals?'']
      | top_condition # _ \<Rightarrow>
          [''Have you noticed any other symptoms related to '' @
             c_category (condition top_condition) @ ''?'',
           ''When did you first notice these symptoms?'',
           ''Have the symptoms been getting better, worse, or staying the same?''])"

text \<open>Step 5: the score record of one condition.\<close>

definition score_condition :: "assessment \<Rightarrow> string list \<Rightarrow> Condition \<Rightarrow> score" where
  "score_condition pet_modifications symptom_ids cond =
     (let base = calculate_confidence cond symptom_ids;
          multiplier = get_default (risk_multipliers pet_modifications) (c_id cond) 1;
          adjusted_confidence = min (base * multiplier) 1
      in \<lparr>condition = cond, confidence = adjusted_confidence,
          base_confidence = base, risk_multiplier = multiplier\<rparr>)"

definition condition_scores :: "KnowledgeBase \<Rightarrow> DiagnosisSession \<Rightarrow> score list" where
  "condition_scores kb session =
     (let potential_conditions = get_conditions_for_symptoms kb (reported_symptoms session);
          pet_modifications = apply_pet_specific_rules kb (pet session) (reported_symptoms session);
          filtered_conditions =
            apply_exclusion_rules potential_conditions (reported_symptoms session) (pet session)
      in fold (\<lambda>cond scores.
                 scores @ [score_condition pet_modifications (reported_symptoms session) cond])
              filtered_conditions [])"

text \<open>
  \<^verbatim>\<open>list.sort(key=lambda x: x['confidence'], reverse=True)\<close>: descending by confidence,
  and stable (records with the same key keep their order), which is the stable ascending
  sort on the negated key.
\<close>

definition sort_by_confidence_desc :: "score list \<Rightarrow> score list" where
  "sort_by_confidence_desc scores = sort_key (\<lambda>x. - confidence x) scores"

definition meets_threshold :: "score \<Rightarrow> bool" where
  "meets_threshold sc = (confidence sc \<ge> confidence_threshold (condition sc))"

definition probable_conditions :: "KnowledgeBase \<Rightarrow> DiagnosisSession \<Rightarrow> score list" where
  "probable_conditions kb session =
     filter meets_threshold (sort_by_confidence_desc (condition_scores kb session))"

definition diagnose :: "KnowledgeBase \<Rightarrow> DiagnosisSession \<Rightarrow> diagnosis_result" where
  "diagnose kb session =
     (case check_emergency_conditions (reported_symptoms session) (pet session) of
        (is_emergency, emergency_alerts) \<Rightarrow>
          if is_emergency then
            Emergency_result emergency_alerts ''SEEK IMMEDIATE VETERINARY ATTENTION'' 1 []
          else
            (let probable = probable_conditions kb session;
                 recs = generate_recommendations kb probable (pet session)
             in Normal_result
                  (take 3 probable)
                  recs
                  (generate_pet_specific_notes (pet session) (reported_symptoms session))
                  (generate_follow_up_questions probable)
                  (session_id session)
                  (timestamp session)))"

subsection \<open>\<^verbatim>\<open>InferenceEngine.explain_reasoning\<close>\<close>

text \<open>
  The two float renderings of the explanation, \<^verbatim>\<open>{confidence:.1%}\<close> and
  \<^verbatim>\<open>{risk_multiplier:.1f}\<close>, are parameters: they are Python's and depend on the binary
  representation of the float.
\<close>

record float_format =
  percent_1 :: "rat \<Rightarrow> string"
  fixed_1 :: "rat \<Rightarrow> string"

definition digit_char :: "nat \<Rightarrow> char" where
  "digit_char d = ''0123456789'' ! d"

function str_of_nat :: "nat \<Rightarrow> string" where
  "str_of_nat n = (if n < 10 then [digit_char n] else str_of_nat (n div 10) @ [digit_char (n mod 10)])"
  by pat_completeness auto
termination
  by (relation "measure (\<lambda>n. n)") auto

definition explain_condition :: "float_format \<Rightarrow> score \<Rightarrow> string" where
  "explain_condition fmt condition_data =
     (let explanation0 = ''**'' @ c_name (condition condition_data) @ ''** (Confidence: '' @
                         percent_1 fmt (confidence condition_data) @ ''): '';
          explanation1 = explanation0 @ ''Matches '' @
                         str_of_nat (length (required_symptoms (condition condition_data))) @
                         '' required symptoms''
      in if risk_multiplier condition_data \<noteq> 1
         then explanation1 @ '' with '' @ fixed_1 fmt (risk_multiplier condition_data) @
              ''x risk adjustment for your pet''
         else explanation1)"

definition explain_reasoning :: "float_format \<Rightarrow> diagnosis_result \<Rightarrow> string" where
  "explain_reasoning fmt diagnosis =
     (if emergency diagnosis then
        ''Emergency condition detected based on critical symptoms requiring immediate attention.''
      else if result_conditions diagnosis = [] then
        ''No specific conditions identified. Symptoms may be minor or require additional information.''
      else join '' | '' (map (explain_condition fmt) (take 2 (result_conditions diagnosis))))"

subsection \<open>The factor dictionaries a pet selects\<close>

text \<open>
  The two dictionaries \<open>apply_pet_specific_rules\<close> reads for a pet: the
  \<^verbatim>\<open>risk_factors\<close> of its lower-cased species and of its age category, empty when the
  entry or the key is absent.
\<close>

definition species_risk_factors :: "KnowledgeBase \<Rightarrow> Pet \<Rightarrow> (string, rat) dict" where
  "species_risk_factors kb p =
     (case risk_factors
             (get_default (rules_species (pet_specific_rules kb)) (lower (species p)) no_rules) of
        None \<Rightarrow> []
      | Some factors \<Rightarrow> factors)"

definition age_risk_factors :: "KnowledgeBase \<Rightarrow> Pet \<Rightarrow> (string, rat) dict" where
  "age_risk_factors kb p =
     (case risk_factors
             (get_default (rules_age_categories (pet_specific_rules kb))
                (get_age_category p) no_rules) of
        None \<Rightarrow> []
      | Some factors \<Rightarrow> factors)"

subsection \<open>Loading: \<^verbatim>\<open>KnowledgeBase.__init__\<close> and \<^verbatim>\<open>load_knowledge\<close>\<close>





















subsection \<open>Objects: the rule table's dictionaries in a store\<close>

text \<open>
  The functions above take and return values. What \<open>diagnose\<close> may change of the objects
  it is given is a question about references, so the pipeline is given a second time over
  a store of dictionary objects. The \<^verbatim>\<open>risk_factors\<close> dictionaries of the rule table are
  objects in the store, and the table holds their addresses; the dictionary
  \<^verbatim>\<open>modified_assessment['risk_multipliers']\<close> is a new object, and the two loops of
  \<^verbatim>\<open>apply_pet_specific_rules\<close> write to it by item assignment and \<^verbatim>\<open>*=\<close>. Every other
  container \<open>diagnose\<close> writes to (the lists it appends to and sorts, the recommendation
  dictionary) is created in the same call and is held by value. The source has no
  assignment to an attribute or item of the knowledge base, the session or the pet.
\<close>

type_synonym address = nat

type_synonym store = "(string, rat) dict list"

definition alloc :: "store \<Rightarrow> (string, rat) dict \<Rightarrow> address \<times> store" where
  "alloc st d = (length st, st @ [d])"

definition store_setitem :: "store \<Rightarrow> address \<Rightarrow> string \<Rightarrow> rat \<Rightarrow> store" where
  "store_setitem st a k v = st[a := setitem (st ! a) k v]"

record rule_entry_ref =
  risk_factors_ref :: "address option"

record pet_rules_ref =
  species_ref :: "(string, rule_entry_ref) dict"
  age_categories_ref :: "(string, rule_entry_ref) dict"

record KnowledgeBase_obj =
  obj_symptoms :: "(string, Symptom) dict"
  obj_conditions :: "(string, Condition) dict"
  obj_treatments :: "(string, Treatment) dict"
  obj_rules :: pet_rules_ref

record state =
  the_kb :: KnowledgeBase_obj
  the_session :: DiagnosisSession
  the_store :: store

definition no_rules_ref :: rule_entry_ref where
  "no_rules_ref = \<lparr>risk_factors_ref = None\<rparr>"

text \<open>Every address of the rule table is the address of an object of the store.\<close>

definition entries_allocated :: "store \<Rightarrow> (string, rule_entry_ref) dict \<Rightarrow> bool" where
  "entries_allocated st entries =
     list_all (\<lambda>(k, e). case risk_factors_ref e of None \<Rightarrow> True | Some a \<Rightarrow> a < length st)
       entries"

definition allocated :: "state \<Rightarrow> bool" where
  "allocated s =
     (entries_allocated (the_store s) (species_ref (obj_rules (the_kb s))) \<and>
      entries_allocated (the_store s) (age_categories_ref (obj_rules (the_kb s))))"

text \<open>The knowledge base as a value: every address replaced by the dictionary it holds.\<close>

definition entry_at :: "store \<Rightarrow> rule_entry_ref \<Rightarrow> rule_entry" where
  "entry_at st e = \<lparr>risk_factors = map_option (\<lambda>a. st ! a) (risk_factors_ref e)\<rparr>"

definition rules_at :: "store \<Rightarrow> pet_rules_ref \<Rightarrow> pet_rules" where
  "rules_at st r =
     \<lparr>rules_species = map (\<lambda>(k, e). (k, entry_at st e)) (species_ref r),
      rules_age_categories = map (\<lambda>(k, e). (k, entry_at st e)) (age_categories_ref r)\<rparr>"

definition kb_at :: "store \<Rightarrow> KnowledgeBase_obj \<Rightarrow> KnowledgeBase" where
  "kb_at st kb =
     \<lparr>symptoms = obj_symptoms kb, conditions = obj_conditions kb,
      treatments = obj_treatments kb, pet_specific_rules = rules_at st (obj_rules kb)\<rparr>"

text \<open>
  \<open>apply_pet_specific_rules\<close> over the store. It returns the address of the new
  dictionary of risk multipliers. The loops read the items of a dictionary of the rule
  table and write to the new one.
\<close>

definition species_loop :: "address \<Rightarrow> (string \<times> rat) list \<Rightarrow> store \<Rightarrow> store" where
  "species_loop multipliers factor_items st =
     fold (\<lambda>(condition_id, multiplier) st'.
             store_setitem st' multipliers condition_id multiplier)
          factor_items st"

definition age_loop :: "address \<Rightarrow> (string \<times> rat) list \<Rightarrow> store \<Rightarrow> store" where
  "age_loop multipliers factor_items st =
     fold (\<lambda>(condition_id, multiplier) st'.
             case map_of (st' ! multipliers) condition_id of
               Some current \<Rightarrow> store_setitem st' multipliers condition_id (current * multiplier)
             | None \<Rightarrow> store_setitem st' multipliers condition_id multiplier)
          factor_items st"

definition apply_pet_specific_rules_st ::
  "KnowledgeBase_obj \<Rightarrow> Pet \<Rightarrow> string list \<Rightarrow> store \<Rightarrow> address \<times> store" where
  "apply_pet_specific_rules_st kb p symptom_ids st =
     (let rules = obj_rules kb;
          species_rules = get_default (species_ref rules) (lower (species p)) no_rules_ref;
          age_rules = get_default (age_categories_ref rules) (get_age_category p) no_rules_ref
      in case alloc st [] of
           (multipliers, st0) \<Rightarrow>
             (let st1 = (case risk_factors_ref species_rules of
                           None \<Rightarrow> st0
                         | Some a \<Rightarrow> species_loop multipliers (items (st0 ! a)) st0);
                  st2 = (case risk_factors_ref age_rules of
                           None \<Rightarrow> st1
                         | Some a \<Rightarrow> age_loop multipliers (items (st1 ! a)) st1)
              in (multipliers, st2)))"

text \<open>
  \<open>diagnose\<close> over the store: the stages that only read are the functions above on the
  knowledge base as a value; the new state is returned with the result.
\<close>

definition diagnose_st :: "state \<Rightarrow> diagnosis_result \<times> state" where
  "diagnose_st s =
     (let session = the_session s;
          kb = kb_at (the_store s) (the_kb s)
      in case check_emergency_conditions (reported_symptoms session) (pet session) of
           (is_emergency, emergency_alerts) \<Rightarrow>
             if is_emergency then
               (Emergency_result emergency_alerts ''SEEK IMMEDIATE VETERINARY ATTENTION'' 1 [], s)
             else
               (let potential_conditions =
                      get_conditions_for_symptoms kb (reported_symptoms session)
                in case apply_pet_specific_rules_st (the_kb s) (pet session)
                          (reported_symptoms session) (the_store s) of
                     (multipliers, st') \<Rightarrow>
                       (let pet_modifications =
                              \<lparr>risk_multipliers = st' ! multipliers, additional_symptoms = [],
                               exclusions = [], urgency_modifiers = []\<rparr>;
                            filtered_conditions =
                              apply_exclusion_rules potential_conditions
                                (reported_symptoms session) (pet session);
                            scores =
                              fold (\<lambda>cond acc.
                                      acc @ [score_condition pet_modifications
                                               (reported_symptoms session) cond])
                                   filtered_conditions [];
                            probable = filter meets_threshold (sort_by_confidence_desc scores);
                            recs = generate_recommendations kb probable (pet session)
                        in (Normal_result
                              (take 3 probable)
                              recs
                              (generate_pet_specific_notes (pet session)
                                 (reported_symptoms session))
                              (generate_follow_up_questions probable)
                              (session_id session)
                              (timestamp session),
                            s\<lparr>the_store := st'\<rparr>))))"

section \<open>A small knowledge base\<close>

text \<open>
  Concrete data in the shape of the JSON sources, on which the functions above are
  evaluated: eight conditions (seven of them in the catalog), two treatments, a rule table
  with factors for dogs and for senior animals, two data directories with a broken source
  and one without, and a store.
\<close>

definition ex_cold :: Condition where
  "ex_cold =
     \<lparr>c_id = ''cold'', c_name = ''Common cold'', c_category = ''respiratory'',
      c_severity = ''mild'',
      required_symptoms = [''cough''], optional_symptoms = [''sneezing''],
      exclusion_symptoms = [''fever''], confidence_threshold = 1 / 2,
      c_description = ''Common cold'', emergency_level = ''low''\<rparr>"

definition ex_kennel_cough :: Condition where
  "ex_kennel_cough =
     \<lparr>c_id = ''kennel_cough'', c_name = ''Kennel cough'', c_category = ''respiratory'',
      c_severity = ''mild'',
      required_symptoms = [''cough''], optional_symptoms = [],
      exclusion_symptoms = [], confidence_threshold = 1 / 2,
      c_description = ''Kennel cough'', emergency_level = ''low''\<rparr>"

definition ex_allergy :: Condition where
  "ex_allergy =
     \<lparr>c_id = ''allergy'', c_name = ''Allergy'', c_category = ''respiratory'',
      c_severity = ''mild'',
      required_symptoms = [], optional_symptoms = [''itching'', ''sneezing''],
      exclusion_symptoms = [], confidence_threshold = 3 / 10,
      c_description = ''Allergy'', emergency_level = ''low''\<rparr>"

definition ex_bronchitis :: Condition where
  "ex_bronchitis =
     \<lparr>c_id = ''bronchitis'', c_name = ''Bronchitis'', c_category = ''respiratory'',
      c_severity = ''mild'',
      required_symptoms = [''cough''], optional_symptoms = [''wheezing''],
      exclusion_symptoms = [], confidence_threshold = 2 / 3,
      c_description = ''Bronchitis'', emergency_level = ''low''\<rparr>"

definition ex_stress :: Condition where
  "ex_stress =
     \<lparr>c_id = ''stress'', c_name = ''Stress'', c_category = ''respiratory'',
      c_severity = ''mild'',
      required_symptoms = [], optional_symptoms = [''cough''],
      exclusion_symptoms = [], confidence_threshold = 1,
      c_description = ''Stress'', emergency_level = ''low''\<rparr>"

definition ex_flu :: Condition where
  "ex_flu =
     \<lparr>c_id = ''flu_adult_only'', c_name = ''Influenza'', c_category = ''respiratory'',
      c_severity = ''mild'',
      required_symptoms = [''cough''], optional_symptoms = [],
      exclusion_symptoms = [], confidence_threshold = 1 / 2,
      c_description = ''Influenza'', emergency_level = ''low''\<rparr>"

definition ex_cat_flu :: Condition where
  "ex_cat_flu =
     \<lparr>c_id = ''cat_flu_feline_only'', c_name = ''Cat flu'', c_category = ''respiratory'',
      c_severity = ''mild'',
      required_symptoms = [''cough''], optional_symptoms = [],
      exclusion_symptoms = [], confidence_threshold = 1 / 2,
      c_description = ''Cat flu'', emergency_level = ''low''\<rparr>"

definition ex_unspecified :: Condition where
  "ex_unspecified =
     \<lparr>c_id = ''unspecified'', c_name = ''Unspecified'', c_category = ''respiratory'',
      c_severity = ''mild'',
      required_symptoms = [], optional_symptoms = [],
      exclusion_symptoms = [], confidence_threshold = 0,
      c_description = ''Unspecified'', emergency_level = ''low''\<rparr>"

definition ex_treatment_rest :: Treatment where
  "ex_treatment_rest =
     \<lparr>t_id = ''rest'', condition_id = ''cold'', treatment_type = ''home_care'',
      t_description = ''Rest and fluids'', instructions = [''Keep warm'', ''Offer water''],
      duration = ''7 days'', precautions = [''Avoid cold air''],
      when_to_seek_help = [''Symptoms last more than a week'']\<rparr>"

definition ex_treatment_vet :: Treatment where
  "ex_treatment_vet =
     \<lparr>t_id = ''vet'', condition_id = ''kennel_cough'', treatment_type = ''vet_visit'',
      t_description = ''Examination'', instructions = [''Book a visit''],
      duration = ''1 day'', precautions = [],
      when_to_seek_help = [''Breathing gets worse'']\<rparr>"

definition ex_rules :: pet_rules where
  "ex_rules =
     \<lparr>rules_species =
        [(''dog'', \<lparr>risk_factors = Some [(''cold'', 3 / 2), (''bronchitis'', 1)]\<rparr>),
         (''cat'', \<lparr>risk_factors = None\<rparr>)],
      rules_age_categories =
        [(''senior'', \<lparr>risk_factors = Some [(''cold'', 2), (''arthritis'', 2)]\<rparr>)]\<rparr>"

definition ex_kb :: KnowledgeBase where
  "ex_kb =
     \<lparr>symptoms = [],
      conditions =
        [(''cold'', ex_cold), (''kennel_cough'', ex_kennel_cough), (''allergy'', ex_allergy),
         (''bronchitis'', ex_bronchitis), (''stress'', ex_stress),
         (''flu_adult_only'', ex_flu), (''cat_flu_feline_only'', ex_cat_flu)],
      treatments = [(''rest'', ex_treatment_rest), (''vet'', ex_treatment_vet)],
      pet_specific_rules = ex_rules\<rparr>"

definition ex_dog :: Pet where
  "ex_dog =
     \<lparr>p_name = ''Rex'', species = ''Dog'', breed = None, age = 8, weight = Some 20,
      gender = ''male'', medical_history = [''hip surgery''], current_medications = [],
      allergies = [], last_vet_visit = None\<rparr>"

definition ex_kitten :: Pet where
  "ex_kitten =
     \<lparr>p_name = ''Mia'', species = ''cat'', breed = None, age = 3 / 10, weight = None,
      gender = ''female'', medical_history = [], current_medications = [],
      allergies = [], last_vet_visit = None\<rparr>"

definition ex_session :: "Pet \<Rightarrow> string list \<Rightarrow> string \<Rightarrow> nat \<Rightarrow> DiagnosisSession" where
  "ex_session p symptom_ids sid ts =
     \<lparr>pet = p, reported_symptoms = symptom_ids, symptom_details = [],
      timestamp = ts, session_id = sid\<rparr>"




definition ex_store :: store where
  "ex_store = [[(''cold'', 3 / 2), (''bronchitis'', 1)], [(''cold'', 2), (''arthritis'', 2)]]"

definition ex_kb_obj :: KnowledgeBase_obj where
  "ex_kb_obj =
     \<lparr>obj_symptoms = symptoms ex_kb, obj_conditions = conditions ex_kb,
      obj_treatments = treatments ex_kb,
      obj_rules =
        \<lparr>species_ref = [(''dog'', \<lparr>risk_factors_ref = Some 0\<rparr>),
                        (''cat'', \<lparr>risk_factors_ref = None\<rparr>)],
         age_categories_ref = [(''senior'', \<lparr>risk_factors_ref = Some 1\<rparr>)]\<rparr>\<rparr>"

definition ex_state :: state where
  "ex_state =
     \<lparr>the_kb = ex_kb_obj, the_session = ex_session ex_dog [''cough''] ''s1'' 17,
      the_store = ex_store\<rparr>"

section \<open>Properties\<close>

subsection \<open>Loops that append are filters\<close>

lemma fold_append_filter:
  "fold (\<lambda>x acc. if P x then acc @ [x] else acc) xs ys = ys @ filter P xs"
  by (induction xs arbitrary: ys) simp_all

lemma get_conditions_for_symptoms_filter:
  "get_conditions_for_symptoms kb S =
     filter (\<lambda>C. set (required_symptoms C) \<subseteq> set S \<and> set (exclusion_symptoms C) \<inter> set S = {})
            (values (conditions kb))"
proof -
  have "(\<lambda>C. required_match C S \<and> \<not> exclusion_conflict C S) =
        (\<lambda>C. set (required_symptoms C) \<subseteq> set S \<and> set (exclusion_symptoms C) \<inter> set S = {})"
    by (auto simp: required_match_def exclusion_conflict_def list_all_iff list_ex_iff)
  then show ?thesis
    by (simp add: get_conditions_for_symptoms_def fold_append_filter)
qed

subsection \<open>Scoring\<close>

lemma weighted_matches_eq: "weighted_matches w xs S = w * matches xs S"
  by (simp add: weighted_matches_def matches_def sum_list_triv)

lemma matches_all: "set xs \<subseteq> set S \<Longrightarrow> matches xs S = length xs"
  unfolding matches_def by (induction xs) auto

lemma matches_card: "distinct xs \<Longrightarrow> matches xs S = card (set xs \<inter> set S)"
proof -
  assume d: "distinct xs"
  have "set (filter (\<lambda>s. s \<in> set S) xs) = set xs \<inter> set S" by auto
  moreover have "distinct (filter (\<lambda>s. s \<in> set S) xs)" using d by simp
  ultimately show ?thesis unfolding matches_def by (metis distinct_card)
qed

lemma calculate_confidence_formula:
  "calculate_confidence C S =
     (if required_symptoms C = [] \<and> optional_symptoms C = [] then 0
      else min (of_nat (2 * matches (required_symptoms C) S + matches (optional_symptoms C) S) /
                of_nat (2 * length (required_symptoms C) + length (optional_symptoms C))) 1)"
  by (simp add: calculate_confidence_def weighted_matches_eq Let_def mult.commute)

lemma calculate_confidence_range:
  "0 \<le> calculate_confidence C S \<and> calculate_confidence C S \<le> 1"
  by (simp add: calculate_confidence_formula)

lemma calculate_confidence_full:
  assumes "set (required_symptoms C) \<union> set (optional_symptoms C) \<subseteq> set S"
    and "required_symptoms C \<noteq> [] \<or> optional_symptoms C \<noteq> []"
  shows "calculate_confidence C S = 1"
proof -
  have r: "matches (required_symptoms C) S = length (required_symptoms C)"
    using assms(1) by (simp add: matches_all)
  have o: "matches (optional_symptoms C) S = length (optional_symptoms C)"
    using assms(1) by (simp add: matches_all)
  have "2 * length (required_symptoms C) + length (optional_symptoms C) \<noteq> 0"
    using assms(2) by auto
  then show ?thesis using assms(2)
    by (simp add: calculate_confidence_formula r o del: of_nat_add of_nat_mult)
qed

subsection \<open>The emergency table\<close>

lemma emergency_level_values:
  "map_of emergency_symptoms s = Some u \<Longrightarrow> u = ''critical'' \<or> u = ''high''"
  by (auto simp: emergency_symptoms_def split: if_splits)

lemma fold_emergency_alerts:
  "fst (fold emergency_step S (al, mu)) =
     al @ map emergency_alert (filter (\<lambda>s. s \<in> fst ` set emergency_symptoms) S)"
proof (induction S arbitrary: al mu)
  case Nil
  then show ?case by simp
next
  case (Cons s S)
  show ?case
  proof (cases "map_of emergency_symptoms s")
    case None
    then have "s \<notin> fst ` set emergency_symptoms" by (simp add: map_of_eq_None_iff)
    with None Cons show ?thesis by (simp add: emergency_step_def)
  next
    case (Some u)
    then have "s \<in> fst ` set emergency_symptoms"
      by (metis map_of_eq_None_iff option.distinct(1))
    with Some Cons show ?thesis by (simp add: emergency_step_def)
  qed
qed

lemma fold_emergency_urgency:
  "snd (fold emergency_step S (al, mu)) \<in> {''high'', ''critical''} \<longleftrightarrow>
     mu \<in> {''high'', ''critical''} \<or> (\<exists>s \<in> set S. s \<in> fst ` set emergency_symptoms)"
proof (induction S arbitrary: al mu)
  case Nil
  then show ?case by simp
next
  case (Cons s S)
  show ?case
  proof (cases "map_of emergency_symptoms s")
    case None
    then have "s \<notin> fst ` set emergency_symptoms" by (simp add: map_of_eq_None_iff)
    with None Cons show ?thesis by (simp add: emergency_step_def)
  next
    case (Some u)
    then have m: "s \<in> fst ` set emergency_symptoms"
      by (metis map_of_eq_None_iff option.distinct(1))
    from Some have "u = ''critical'' \<or> u = ''high''" by (rule emergency_level_values)
    with Some m Cons show ?thesis by (auto simp: emergency_step_def)
  qed
qed

lemma check_emergency_conditions_eq:
  "check_emergency_conditions S p =
     ((\<exists>s \<in> set S. s \<in> fst ` set emergency_symptoms),
      map emergency_alert (filter (\<lambda>s. s \<in> fst ` set emergency_symptoms) S))"
proof -
  obtain al mu where f: "fold emergency_step S ([], ''low'') = (al, mu)"
    by (cases "fold emergency_step S ([], ''low'')")
  have "al = map emergency_alert (filter (\<lambda>s. s \<in> fst ` set emergency_symptoms) S)"
    using fold_emergency_alerts [of S "[]" "''low''"] f by simp
  moreover have "mu \<in> {''high'', ''critical''} \<longleftrightarrow> (\<exists>s \<in> set S. s \<in> fst ` set emergency_symptoms)"
    using fold_emergency_urgency [of S "[]" "''low''"] f by simp
  ultimately show ?thesis
    by (simp add: check_emergency_conditions_def f)
qed

subsection \<open>Exclusion rules\<close>

lemma species_exclusion_loop_two:
  "species_exclusion_loop [(t1, e1), (t2, e2)] c p ex \<longleftrightarrow>
     str_contains t1 (c_id c) \<and> lower (species p) \<in> set e1 \<or>
     str_contains t2 (c_id c) \<and> lower (species p) \<in> set e2 \<or> ex"
  by auto

lemma excluded_iff:
  "excluded c p \<longleftrightarrow>
          (age p < 1 \<and> sublist ''adult_only'' (c_id c) \<or>
           age p > 10 \<and> sublist ''young_only'' (c_id c) \<or>
           sublist ''feline_only'' (c_id c) \<and>
             lower (species p) \<in> {''dog'', ''bird'', ''rabbit''} \<or>
           sublist ''canine_only'' (c_id c) \<and>
             lower (species p) \<in> {''cat'', ''bird'', ''rabbit''})"
  unfolding excluded_def species_exclusions_def items_def Let_def
    species_exclusion_loop_two str_contains_def
  by (simp only: list.set split: if_splits) blast

subsection \<open>Merging the risk factors\<close>




lemma risk_multipliers_apply_pet_specific_rules:
  "risk_multipliers (apply_pet_specific_rules kb p S) =
     apply_age_factors (age_risk_factors kb p)
       (apply_species_factors (species_risk_factors kb p) [])"
  by (simp add: apply_pet_specific_rules_def species_risk_factors_def age_risk_factors_def
        Let_def apply_age_factors_def apply_species_factors_def items_def
      split: option.splits)

subsection \<open>The pipeline\<close>

lemma fold_append_map: "fold (\<lambda>x acc. acc @ [f x]) xs ys = ys @ map f xs"
  by (induction xs arbitrary: ys) simp_all

lemma condition_scores_map:
  "condition_scores kb session =
     map (score_condition
            (apply_pet_specific_rules kb (pet session) (reported_symptoms session))
            (reported_symptoms session))
         (apply_exclusion_rules
            (get_conditions_for_symptoms kb (reported_symptoms session))
            (reported_symptoms session) (pet session))"
  by (simp add: condition_scores_def Let_def fold_append_map)

lemma emergency_diagnose_iff:
  "emergency (diagnose kb session) \<longleftrightarrow>
     fst (check_emergency_conditions (reported_symptoms session) (pet session))"
  by (cases "check_emergency_conditions (reported_symptoms session) (pet session)")
     (simp add: diagnose_def Let_def)

lemma diagnose_normal:
  assumes "\<not> fst (check_emergency_conditions (reported_symptoms session) (pet session))"
  shows "diagnose kb session =
           Normal_result
             (take 3 (probable_conditions kb session))
             (generate_recommendations kb (probable_conditions kb session) (pet session))
             (generate_pet_specific_notes (pet session) (reported_symptoms session))
             (generate_follow_up_questions (probable_conditions kb session))
             (session_id session)
             (timestamp session)"
  using assms
  by (cases "check_emergency_conditions (reported_symptoms session) (pet session)")
     (simp add: diagnose_def Let_def)

lemma diagnose_emergency:
  assumes "fst (check_emergency_conditions (reported_symptoms session) (pet session))"
  shows "diagnose kb session =
           Emergency_result
             (snd (check_emergency_conditions (reported_symptoms session) (pet session)))
             ''SEEK IMMEDIATE VETERINARY ATTENTION'' 1 []"
  using assms
  by (cases "check_emergency_conditions (reported_symptoms session) (pet session)")
     (simp add: diagnose_def Let_def)

lemma sorted_desc_sort_by_confidence:
  "sorted_wrt (\<lambda>a b. confidence a \<ge> confidence b) (sort_by_confidence_desc scores)"
proof -
  have "sorted (map (\<lambda>x. - confidence x) (sort_key (\<lambda>x. - confidence x) scores))"
    by (rule sorted_sort_key)
  then show ?thesis
    by (simp add: sort_by_confidence_desc_def sorted_map)
qed

lemma stable_sort_by_confidence:
  "filter (\<lambda>sc. confidence sc = k) (sort_by_confidence_desc scores) =
   filter (\<lambda>sc. confidence sc = k) scores"
proof -
  have "filter (\<lambda>y. - confidence y = - k) (sort_key (\<lambda>x. - confidence x) scores) =
        filter (\<lambda>y. - confidence y = - k) scores"
    by (rule sort_key_stable)
  then show ?thesis
    by (simp add: sort_by_confidence_desc_def)
qed

lemma condition_scores_cong:
  assumes "pet s1 = pet s2" and "reported_symptoms s1 = reported_symptoms s2"
  shows "condition_scores kb s1 = condition_scores kb s2"
  using assms by (simp add: condition_scores_def)

subsection \<open>Loading\<close>


























subsection \<open>The store\<close>

lemma apply_species_factors_Cons:
  "apply_species_factors ((c, m) # xs) d = apply_species_factors xs (setitem d c m)"
  by (simp add: apply_species_factors_def items_def)

lemma apply_age_factors_Cons:
  "apply_age_factors ((c, m) # xs) d =
     apply_age_factors xs
       (case map_of d c of Some current \<Rightarrow> setitem d c (current * m) | None \<Rightarrow> setitem d c m)"
  by (simp add: apply_age_factors_def items_def)

lemma apply_factors_Nil:
  "apply_species_factors [] d = d" "apply_age_factors [] d = d"
  by (simp_all add: apply_species_factors_def apply_age_factors_def items_def)

lemma species_loop_writes:
  "a < length st \<Longrightarrow> species_loop a xs st = st[a := apply_species_factors xs (st ! a)]"
proof (induction xs arbitrary: st)
  case Nil
  then show ?case by (simp add: species_loop_def apply_factors_Nil)
next
  case (Cons x xs)
  obtain c m where x: "x = (c, m)" by (cases x)
  let ?st = "store_setitem st a c m"
  have l: "a < length ?st" using Cons.prems by (simp add: store_setitem_def)
  have "species_loop a (x # xs) st = species_loop a xs ?st"
    by (simp add: species_loop_def x)
  also have "\<dots> = ?st[a := apply_species_factors xs (?st ! a)]"
    by (rule Cons.IH [OF l])
  also have "\<dots> = st[a := apply_species_factors (x # xs) (st ! a)]"
    using Cons.prems by (simp add: store_setitem_def x apply_species_factors_Cons)
  finally show ?case .
qed

lemma age_loop_writes:
  "a < length st \<Longrightarrow> age_loop a xs st = st[a := apply_age_factors xs (st ! a)]"
proof (induction xs arbitrary: st)
  case Nil
  then show ?case by (simp add: age_loop_def apply_factors_Nil)
next
  case (Cons x xs)
  obtain c m where x: "x = (c, m)" by (cases x)
  let ?d = "case map_of (st ! a) c of
              Some current \<Rightarrow> setitem (st ! a) c (current * m)
            | None \<Rightarrow> setitem (st ! a) c m"
  let ?st = "st[a := ?d]"
  have l: "a < length ?st" using Cons.prems by simp
  have "age_loop a (x # xs) st = age_loop a xs ?st"
    by (simp add: age_loop_def x store_setitem_def split: option.splits)
  also have "\<dots> = ?st[a := apply_age_factors xs (?st ! a)]"
    by (rule Cons.IH [OF l])
  also have "\<dots> = st[a := apply_age_factors (x # xs) (st ! a)]"
    using Cons.prems by (simp add: x apply_age_factors_Cons)
  finally show ?case .
qed

lemma get_default_entry_at:
  "get_default (map (\<lambda>(k, e). (k, entry_at st e)) refs) key no_rules =
   entry_at st (get_default refs key no_rules_ref)"
proof -
  have "map_of (map (\<lambda>(k, e). (k, entry_at st e)) refs) key =
        map_option (entry_at st) (map_of refs key)"
    by (induction refs) auto
  then show ?thesis
    by (simp add: get_default_def entry_at_def no_rules_def no_rules_ref_def
             split: option.splits)
qed

lemma get_default_allocated:
  assumes "entries_allocated st refs"
    and "risk_factors_ref (get_default refs key no_rules_ref) = Some a"
  shows "a < length st"
proof (cases "map_of refs key")
  case None
  with assms(2) show ?thesis by (simp add: get_default_def no_rules_ref_def)
next
  case (Some e)
  then have "(key, e) \<in> set refs" by (rule map_of_SomeD)
  with assms(1) have "case risk_factors_ref e of None \<Rightarrow> True | Some a \<Rightarrow> a < length st"
    by (auto simp: entries_allocated_def list_all_iff)
  with assms(2) Some show ?thesis by (simp add: get_default_def)
qed

lemma entries_at_append:
  assumes "entries_allocated st refs"
  shows "map (\<lambda>(k, e). (k, entry_at (st @ extra) e)) refs =
         map (\<lambda>(k, e). (k, entry_at st e)) refs"
proof (rule map_cong [OF refl])
  fix x assume x: "x \<in> set refs"
  obtain k e where ke: "x = (k, e)" by (cases x)
  from assms x ke have "case risk_factors_ref e of None \<Rightarrow> True | Some a \<Rightarrow> a < length st"
    by (auto simp: entries_allocated_def list_all_iff)
  then have "entry_at (st @ extra) e = entry_at st e"
    by (cases "risk_factors_ref e") (simp_all add: entry_at_def nth_append)
  then show "(case x of (k, e) \<Rightarrow> (k, entry_at (st @ extra) e)) =
             (case x of (k, e) \<Rightarrow> (k, entry_at st e))"
    by (simp add: ke)
qed

lemma kb_at_append:
  assumes "entries_allocated st (species_ref (obj_rules kb))"
    and "entries_allocated st (age_categories_ref (obj_rules kb))"
  shows "kb_at (st @ extra) kb = kb_at st kb"
  by (simp add: kb_at_def rules_at_def entries_at_append [OF assms(1)]
        entries_at_append [OF assms(2)])

lemma species_risk_factors_kb_at:
  "species_risk_factors (kb_at st kb) p =
     (case risk_factors_ref
             (get_default (species_ref (obj_rules kb)) (lower (species p)) no_rules_ref) of
        None \<Rightarrow> []
      | Some a \<Rightarrow> st ! a)"
  by (simp add: species_risk_factors_def kb_at_def rules_at_def get_default_entry_at;
      simp add: entry_at_def split: option.splits)

lemma age_risk_factors_kb_at:
  "age_risk_factors (kb_at st kb) p =
     (case risk_factors_ref
             (get_default (age_categories_ref (obj_rules kb)) (get_age_category p)
                no_rules_ref) of
        None \<Rightarrow> []
      | Some a \<Rightarrow> st ! a)"
  by (simp add: age_risk_factors_def kb_at_def rules_at_def get_default_entry_at;
      simp add: entry_at_def split: option.splits)

lemma apply_pet_specific_rules_st_fresh:
  assumes "entries_allocated st (species_ref (obj_rules kb))"
    and "entries_allocated st (age_categories_ref (obj_rules kb))"
  shows "apply_pet_specific_rules_st kb p S st =
           (length st, st @ [risk_multipliers (apply_pet_specific_rules (kb_at st kb) p S)])"
proof -
  let ?sr = "get_default (species_ref (obj_rules kb)) (lower (species p)) no_rules_ref"
  let ?ar = "get_default (age_categories_ref (obj_rules kb)) (get_age_category p) no_rules_ref"
  let ?sf = "species_risk_factors (kb_at st kb) p"
  let ?af = "age_risk_factors (kb_at st kb) p"
  let ?st1 = "st @ [apply_species_factors ?sf []]"
  have s: "(case risk_factors_ref ?sr of
              None \<Rightarrow> st @ [[]]
            | Some a \<Rightarrow> species_loop (length st) (items ((st @ [[]]) ! a)) (st @ [[]])) = ?st1"
  proof (cases "risk_factors_ref ?sr")
    case None
    then show ?thesis by (simp add: species_risk_factors_kb_at apply_factors_Nil)
  next
    case (Some a)
    then have "a < length st" using assms(1) by (rule get_default_allocated [rotated])
    then show ?thesis
      using Some
      by (simp add: species_risk_factors_kb_at species_loop_writes items_def nth_append)
  qed
  have a: "(case risk_factors_ref ?ar of
              None \<Rightarrow> ?st1
            | Some a \<Rightarrow> age_loop (length st) (items (?st1 ! a)) ?st1) =
           st @ [apply_age_factors ?af (apply_species_factors ?sf [])]"
  proof (cases "risk_factors_ref ?ar")
    case None
    then show ?thesis by (simp add: age_risk_factors_kb_at apply_factors_Nil)
  next
    case (Some a)
    then have "a < length st" using assms(2) by (rule get_default_allocated [rotated])
    then show ?thesis
      using Some
      by (simp add: age_risk_factors_kb_at age_loop_writes items_def nth_append)
  qed
  show ?thesis
    unfolding apply_pet_specific_rules_st_def alloc_def Let_def prod.case s a
      risk_multipliers_apply_pet_specific_rules
    by (rule refl)
qed

lemma apply_pet_specific_rules_record:
  "\<lparr>risk_multipliers = risk_multipliers (apply_pet_specific_rules kb p S),
    additional_symptoms = [], exclusions = [], urgency_modifiers = []\<rparr> =
   apply_pet_specific_rules kb p S"
  by (simp add: apply_pet_specific_rules_def Let_def)

lemma diagnose_st_eq:
  assumes "allocated s"
  shows "diagnose_st s =
           (diagnose (kb_at (the_store s) (the_kb s)) (the_session s),
            if fst (check_emergency_conditions (reported_symptoms (the_session s))
                      (pet (the_session s)))
            then s
            else s\<lparr>the_store := the_store s @
                     [risk_multipliers
                        (apply_pet_specific_rules (kb_at (the_store s) (the_kb s))
                           (pet (the_session s)) (reported_symptoms (the_session s)))]\<rparr>)"
proof -
  from assms have al: "entries_allocated (the_store s) (species_ref (obj_rules (the_kb s)))"
    "entries_allocated (the_store s) (age_categories_ref (obj_rules (the_kb s)))"
    by (simp_all add: allocated_def)
  show ?thesis
  proof (cases "check_emergency_conditions (reported_symptoms (the_session s))
                  (pet (the_session s))")
    case (Pair is_emergency emergency_alerts)
    show ?thesis
    proof (cases is_emergency)
      case True
      with Pair show ?thesis by (simp add: diagnose_st_def diagnose_def Let_def)
    next
      case False
      with Pair show ?thesis
        by (simp add: diagnose_st_def diagnose_def Let_def
              apply_pet_specific_rules_st_fresh [OF al] apply_pet_specific_rules_record
              probable_conditions_def condition_scores_def)
    qed
  qed
qed

subsection \<open>What the pipeline reads of the reported symptoms\<close>

text \<open>
  Outside the emergency alerts, the reported symptoms are only tested for membership: a
  normal result depends on the set of reported symptoms, not on their order or number.
\<close>

lemma condition_scores_symptom_set:
  assumes "pet s1 = pet s2" and "set (reported_symptoms s1) = set (reported_symptoms s2)"
  shows "condition_scores kb s1 = condition_scores kb s2"
proof -
  have g: "get_conditions_for_symptoms kb (reported_symptoms s1) =
           get_conditions_for_symptoms kb (reported_symptoms s2)"
    by (simp add: get_conditions_for_symptoms_filter assms(2))
  have c: "calculate_confidence C (reported_symptoms s1) =
           calculate_confidence C (reported_symptoms s2)" for C
    by (simp add: calculate_confidence_def weighted_matches_def assms(2))
  have m: "apply_pet_specific_rules kb (pet s1) (reported_symptoms s1) =
           apply_pet_specific_rules kb (pet s2) (reported_symptoms s2)"
    by (simp add: apply_pet_specific_rules_def assms(1))
  have e: "apply_exclusion_rules cs (reported_symptoms s1) (pet s1) =
           apply_exclusion_rules cs (reported_symptoms s2) (pet s2)" for cs
    by (simp add: apply_exclusion_rules_def assms(1))
  have sc: "score_condition mods (reported_symptoms s1) C =
            score_condition mods (reported_symptoms s2) C" for mods C
    by (simp add: score_condition_def c)
  show ?thesis
    by (simp add: condition_scores_map g m e sc)
qed

lemma diagnose_symptom_set:
  assumes "pet s1 = pet s2" and "set (reported_symptoms s1) = set (reported_symptoms s2)"
    and "session_id s1 = session_id s2" and "timestamp s1 = timestamp s2"
    and "\<not> fst (check_emergency_conditions (reported_symptoms s1) (pet s1))"
  shows "diagnose kb s1 = diagnose kb s2"
proof -
  have "\<not> fst (check_emergency_conditions (reported_symptoms s2) (pet s2))"
    using assms(2,5) by (simp add: check_emergency_conditions_eq)
  moreover have "probable_conditions kb s1 = probable_conditions kb s2"
    by (simp add: probable_conditions_def condition_scores_symptom_set [OF assms(1,2)])
  ultimately show ?thesis
    using assms by (simp add: diagnose_normal generate_pet_specific_notes_def)
qed

section \<open>The claims\<close>

text \<open>
  C1. For every condition \<open>C\<close> of the catalog and every reported symptom list \<open>S\<close>,
  \<open>get_conditions_for_symptoms\<close> returns \<open>C\<close> if and only if every id of
  \<open>required_symptoms C\<close> is in \<open>S\<close> and no id of \<open>exclusion_symptoms C\<close> is in \<open>S\<close>. In
  particular a condition without required symptoms, none of whose exclusion symptoms is
  reported, is returned, also for the empty \<open>S\<close>. Nothing outside the catalog is returned.
\<close>

theorem get_conditions_for_symptoms_iff:
  assumes "C \<in> set (values (conditions kb))"
  shows "(C \<in> set (get_conditions_for_symptoms kb S) \<longleftrightarrow>
            set (required_symptoms C) \<subseteq> set S \<and> set (exclusion_symptoms C) \<inter> set S = {}) \<and>
         (required_symptoms C = [] \<and> set (exclusion_symptoms C) \<inter> set S = {} \<longrightarrow>
            C \<in> set (get_conditions_for_symptoms kb S)) \<and>
         (required_symptoms C = [] \<longrightarrow> C \<in> set (get_conditions_for_symptoms kb [])) \<and>
         set (get_conditions_for_symptoms kb S) \<subseteq> set (values (conditions kb))"
  using assms by (auto simp: get_conditions_for_symptoms_filter)

theorem get_conditions_for_symptoms_iff_witness:
  "ex_allergy \<in> set (values (conditions ex_kb)) \<and>
   required_symptoms ex_allergy = [] \<and>
   ex_allergy \<in> set (get_conditions_for_symptoms ex_kb []) \<and>
   ex_cold \<in> set (values (conditions ex_kb)) \<and>
   ex_cold \<notin> set (get_conditions_for_symptoms ex_kb [''cough'', ''fever''])"
proof -
  have a: "ex_allergy \<in> set (values (conditions ex_kb))"
    by (simp add: values_def ex_kb_def)
  have c: "ex_cold \<in> set (values (conditions ex_kb))"
    by (simp add: values_def ex_kb_def)
  have r: "required_symptoms ex_allergy = []"
    by (simp add: ex_allergy_def)
  have "\<not> (set (required_symptoms ex_cold) \<subseteq> set [''cough'', ''fever''] \<and>
            set (exclusion_symptoms ex_cold) \<inter> set [''cough'', ''fever''] = {})"
    by (simp add: ex_cold_def)
  then show ?thesis
    using get_conditions_for_symptoms_iff [OF a, of "[]"]
          get_conditions_for_symptoms_iff [OF c, of "[''cough'', ''fever'']"] a c r
    by blast
qed

text \<open>
  C2, as the claim states it, fails for a condition that declares no symptom at all: the
  reported symptoms then contain all of its (zero) symptoms, and the score is 0, not 1.
\<close>

theorem calculate_confidence_no_symptoms_counterexample:
  "set (required_symptoms ex_unspecified) \<union> set (optional_symptoms ex_unspecified) \<subseteq> set [] \<and>
   calculate_confidence ex_unspecified [] = 0 \<and>
   calculate_confidence ex_unspecified [] \<noteq> 1"
  by (simp add: calculate_confidence_def ex_unspecified_def)

text \<open>
  C2 (amended). \<open>calculate_confidence C S\<close> is
  \<open>(2 * m\<^sub>r + m\<^sub>o) / (2 * n\<^sub>r + n\<^sub>o)\<close> clamped to at most 1, where \<open>n\<^sub>r\<close>, \<open>n\<^sub>o\<close> are the
  numbers of required and optional symptoms of \<open>C\<close> and \<open>m\<^sub>r\<close>, \<open>m\<^sub>o\<close> the numbers of those
  that are reported (for lists without repetition: the sizes of the intersections with
  \<open>S\<close>). It is 0 when \<open>C\<close> declares no required and no optional symptom, it lies in
  \<open>[0, 1]\<close>, and it is 1 when \<open>S\<close> contains all required and optional symptoms of \<open>C\<close>
  and \<open>C\<close> declares at least one.
\<close>

theorem calculate_confidence_spec:
  "(required_symptoms C \<noteq> [] \<or> optional_symptoms C \<noteq> [] \<longrightarrow>
      calculate_confidence C S =
        min (of_nat (2 * matches (required_symptoms C) S + matches (optional_symptoms C) S) /
             of_nat (2 * length (required_symptoms C) + length (optional_symptoms C))) 1) \<and>
   (distinct (required_symptoms C) \<and> distinct (optional_symptoms C) \<longrightarrow>
      matches (required_symptoms C) S = card (set (required_symptoms C) \<inter> set S) \<and>
      matches (optional_symptoms C) S = card (set (optional_symptoms C) \<inter> set S) \<and>
      length (required_symptoms C) = card (set (required_symptoms C)) \<and>
      length (optional_symptoms C) = card (set (optional_symptoms C))) \<and>
   (required_symptoms C = [] \<and> optional_symptoms C = [] \<longrightarrow> calculate_confidence C S = 0) \<and>
   0 \<le> calculate_confidence C S \<and> calculate_confidence C S \<le> 1 \<and>
   (set (required_symptoms C) \<union> set (optional_symptoms C) \<subseteq> set S \<and>
    (required_symptoms C \<noteq> [] \<or> optional_symptoms C \<noteq> []) \<longrightarrow>
      calculate_confidence C S = 1)"
proof -
  have "required_symptoms C \<noteq> [] \<or> optional_symptoms C \<noteq> [] \<longrightarrow>
      calculate_confidence C S =
        min (of_nat (2 * matches (required_symptoms C) S + matches (optional_symptoms C) S) /
             of_nat (2 * length (required_symptoms C) + length (optional_symptoms C))) 1"
    by (simp add: calculate_confidence_formula)
  moreover have "distinct (required_symptoms C) \<and> distinct (optional_symptoms C) \<longrightarrow>
      matches (required_symptoms C) S = card (set (required_symptoms C) \<inter> set S) \<and>
      matches (optional_symptoms C) S = card (set (optional_symptoms C) \<inter> set S) \<and>
      length (required_symptoms C) = card (set (required_symptoms C)) \<and>
      length (optional_symptoms C) = card (set (optional_symptoms C))"
    by (simp add: matches_card distinct_card)
  moreover have "required_symptoms C = [] \<and> optional_symptoms C = [] \<longrightarrow>
      calculate_confidence C S = 0"
    by (simp add: calculate_confidence_formula)
  moreover note calculate_confidence_range [of C S]
  moreover have "set (required_symptoms C) \<union> set (optional_symptoms C) \<subseteq> set S \<and>
    (required_symptoms C \<noteq> [] \<or> optional_symptoms C \<noteq> []) \<longrightarrow> calculate_confidence C S = 1"
    using calculate_confidence_full [of C S] by blast
  ultimately show ?thesis by blast
qed

theorem calculate_confidence_spec_witness:
  "calculate_confidence ex_cold [''cough''] = 2 / 3 \<and>
   calculate_confidence ex_cold [''sneezing'', ''cough'', ''limping''] = 1 \<and>
   calculate_confidence ex_unspecified [''cough''] = 0 \<and>
   matches (required_symptoms ex_cold) [''cough''] =
     card (set (required_symptoms ex_cold) \<inter> set [''cough''])"
proof -
  have 1: "calculate_confidence ex_cold [''cough''] = 2 / 3"
    using calculate_confidence_spec [of ex_cold "[''cough'']"]
    by (simp add: ex_cold_def matches_def)
  have 2: "calculate_confidence ex_cold [''sneezing'', ''cough'', ''limping''] = 1"
    using calculate_confidence_spec [of ex_cold "[''sneezing'', ''cough'', ''limping'']"]
    by (simp add: ex_cold_def)
  have 3: "calculate_confidence ex_unspecified [''cough''] = 0"
    using calculate_confidence_spec [of ex_unspecified "[''cough'']"]
    by (simp add: ex_unspecified_def)
  have "distinct (required_symptoms ex_cold) \<and> distinct (optional_symptoms ex_cold)"
    by (simp add: ex_cold_def)
  then have 4: "matches (required_symptoms ex_cold) [''cough''] =
     card (set (required_symptoms ex_cold) \<inter> set [''cough''])"
    using calculate_confidence_spec [of ex_cold "[''cough'']"] by blast
  from 1 2 3 4 show ?thesis by blast
qed

text \<open>
  C10. \<open>check_emergency_conditions\<close> answers \<open>True\<close> if and only if the list of alerts it
  returns is not empty, which is the case exactly when a reported symptom is a key of the
  fixed emergency table. The alerts are one per occurrence of such a symptom in the
  reported list, in the order of that list.
\<close>

theorem check_emergency_conditions_alerts:
  "(fst (check_emergency_conditions S p) \<longleftrightarrow> snd (check_emergency_conditions S p) \<noteq> []) \<and>
   (fst (check_emergency_conditions S p) \<longleftrightarrow>
      (\<exists>s \<in> set S. s \<in> fst ` set emergency_symptoms)) \<and>
   snd (check_emergency_conditions S p) =
     map emergency_alert (filter (\<lambda>s. s \<in> fst ` set emergency_symptoms) S) \<and>
   fst ` set emergency_symptoms =
     {''difficulty_breathing'', ''severe_bleeding'', ''unconscious'', ''seizures'',
      ''severe_trauma'', ''bloated_abdomen'', ''persistent_vomiting'', ''inability_to_urinate''}"
proof -
  have "fst ` set emergency_symptoms =
     {''difficulty_breathing'', ''severe_bleeding'', ''unconscious'', ''seizures'',
      ''severe_trauma'', ''bloated_abdomen'', ''persistent_vomiting'', ''inability_to_urinate''}"
    by (simp add: emergency_symptoms_def)
  moreover have "(filter (\<lambda>s. s \<in> fst ` set emergency_symptoms) S \<noteq> []) \<longleftrightarrow>
      (\<exists>s \<in> set S. s \<in> fst ` set emergency_symptoms)"
    by (simp add: filter_empty_conv)
  ultimately show ?thesis
    by (simp add: check_emergency_conditions_eq)
qed

theorem check_emergency_conditions_alerts_witness:
  "check_emergency_conditions [''cough'', ''seizures'', ''limping'', ''bloated_abdomen'', ''seizures'']
     ex_dog =
     (True, [''URGENT: Seizures requires immediate veterinary attention'',
             ''URGENT: Bloated Abdomen requires immediate veterinary attention'',
             ''URGENT: Seizures requires immediate veterinary attention'']) \<and>
   check_emergency_conditions [''cough'', ''limping''] ex_dog = (False, [])"
proof -
  have a: "emergency_alert ''seizures'' =
             ''URGENT: Seizures requires immediate veterinary attention''"
    by code_simp
  have b: "emergency_alert ''bloated_abdomen'' =
             ''URGENT: Bloated Abdomen requires immediate veterinary attention''"
    by code_simp
  have 1: "check_emergency_conditions
             [''cough'', ''seizures'', ''limping'', ''bloated_abdomen'', ''seizures''] ex_dog =
           (True, [''URGENT: Seizures requires immediate veterinary attention'',
                   ''URGENT: Bloated Abdomen requires immediate veterinary attention'',
                   ''URGENT: Seizures requires immediate veterinary attention''])"
    using check_emergency_conditions_alerts
            [of "[''cough'', ''seizures'', ''limping'', ''bloated_abdomen'', ''seizures'']" ex_dog]
    by (simp add: prod_eq_iff a b)
  have 2: "check_emergency_conditions [''cough'', ''limping''] ex_dog = (False, [])"
    using check_emergency_conditions_alerts [of "[''cough'', ''limping'']" ex_dog]
    by (simp add: prod_eq_iff)
  from 1 2 show ?thesis by simp
qed

text \<open>
  C3. When a reported symptom is a key of the emergency table (\<^verbatim>\<open>difficulty_breathing\<close> is
  one), \<open>diagnose\<close> returns the emergency result: \<open>emergency\<close> is true, the confidence is
  1, there is at least one alert and the list of conditions is empty. The result is a
  function of the reported symptoms alone: another knowledge base, pet, session id or
  timestamp gives the same result, so no later stage has a part in it.
\<close>

theorem diagnose_emergency_short_circuit:
  assumes "\<exists>s \<in> set (reported_symptoms session). s \<in> fst ` set emergency_symptoms"
  shows "emergency (diagnose kb session) \<and>
         result_confidence (diagnose kb session) = 1 \<and>
         alerts (diagnose kb session) \<noteq> [] \<and>
         result_conditions (diagnose kb session) = [] \<and>
         diagnose kb session =
           Emergency_result
             (map emergency_alert
                (filter (\<lambda>s. s \<in> fst ` set emergency_symptoms) (reported_symptoms session)))
             ''SEEK IMMEDIATE VETERINARY ATTENTION'' 1 [] \<and>
         (\<forall>kb' session'. reported_symptoms session' = reported_symptoms session \<longrightarrow>
            diagnose kb' session' = diagnose kb session)"
proof -
  have ne: "filter (\<lambda>s. s \<in> fst ` set emergency_symptoms) (reported_symptoms session) \<noteq> []"
    using assms by (simp add: filter_empty_conv)
  have d: "diagnose k s =
           Emergency_result
             (map emergency_alert
                (filter (\<lambda>s. s \<in> fst ` set emergency_symptoms) (reported_symptoms session)))
             ''SEEK IMMEDIATE VETERINARY ATTENTION'' 1 []"
    if "reported_symptoms s = reported_symptoms session" for k s
    using assms that by (simp add: diagnose_def check_emergency_conditions_eq)
  show ?thesis using ne d by simp
qed

theorem diagnose_emergency_short_circuit_witness:
  "(\<exists>s \<in> set (reported_symptoms (ex_session ex_dog [''difficulty_breathing''] ''a'' 1)).
      s \<in> fst ` set emergency_symptoms) \<and>
   diagnose ex_kb (ex_session ex_dog [''difficulty_breathing''] ''a'' 1) =
     Emergency_result
       [''URGENT: Difficulty Breathing requires immediate veterinary attention'']
       ''SEEK IMMEDIATE VETERINARY ATTENTION'' 1 []"
proof -
  have h: "\<exists>s \<in> set (reported_symptoms (ex_session ex_dog [''difficulty_breathing''] ''a'' 1)).
             s \<in> fst ` set emergency_symptoms"
    by (simp add: ex_session_def emergency_symptoms_def)
  have t: "''difficulty_breathing'' \<in> fst ` set emergency_symptoms"
    by (simp add: emergency_symptoms_def)
  have a: "emergency_alert ''difficulty_breathing'' =
             ''URGENT: Difficulty Breathing requires immediate veterinary attention''"
    by code_simp
  show ?thesis
    using diagnose_emergency_short_circuit [OF h, of ex_kb] h t a
    by (simp add: ex_session_def)
qed

text \<open>
  C6. \<open>apply_exclusion_rules\<close> removes a condition if and only if the pet is younger than
  1 and \<^verbatim>\<open>adult_only\<close> occurs in the condition's id, or the pet is older than 10 and
  \<^verbatim>\<open>young_only\<close> occurs in it, or \<^verbatim>\<open>feline_only\<close> occurs in it and the lower-cased species
  is dog, bird or rabbit, or \<^verbatim>\<open>canine_only\<close> occurs in it and the lower-cased species is
  cat, bird or rabbit. The other conditions are kept, in their order.
\<close>

theorem apply_exclusion_rules_filter:
  "apply_exclusion_rules conds S p =
     filter (\<lambda>c. \<not> (age p < 1 \<and> sublist ''adult_only'' (c_id c) \<or>
                     age p > 10 \<and> sublist ''young_only'' (c_id c) \<or>
                     sublist ''feline_only'' (c_id c) \<and>
                       lower (species p) \<in> {''dog'', ''bird'', ''rabbit''} \<or>
                     sublist ''canine_only'' (c_id c) \<and>
                       lower (species p) \<in> {''cat'', ''bird'', ''rabbit''}))
            conds"
  by (simp only: apply_exclusion_rules_def fold_append_filter excluded_iff append_Nil)

theorem apply_exclusion_rules_filter_witness:
  "apply_exclusion_rules [ex_flu, ex_cold, ex_cat_flu, ex_kennel_cough] [''cough''] ex_kitten =
     [ex_cold, ex_cat_flu, ex_kennel_cough] \<and>
   apply_exclusion_rules [ex_flu, ex_cold, ex_cat_flu, ex_kennel_cough] [''cough''] ex_dog =
     [ex_flu, ex_cold, ex_kennel_cough]"
proof -
  have l: "lower (species ex_kitten) = ''cat''" "lower (species ex_dog) = ''dog''"
    by code_simp+
  have a: "age ex_kitten < 1" "\<not> age ex_kitten > 10" "\<not> age ex_dog < 1" "\<not> age ex_dog > 10"
    by (simp_all add: ex_kitten_def ex_dog_def)
  have i: "sublist ''adult_only'' (c_id ex_flu)"
          "\<not> sublist ''feline_only'' (c_id ex_flu)"
          "\<not> sublist ''canine_only'' (c_id ex_flu)"
          "\<not> sublist ''adult_only'' (c_id ex_cold)"
          "\<not> sublist ''feline_only'' (c_id ex_cold)"
          "\<not> sublist ''canine_only'' (c_id ex_cold)"
          "\<not> sublist ''adult_only'' (c_id ex_cat_flu)"
          "sublist ''feline_only'' (c_id ex_cat_flu)"
          "\<not> sublist ''canine_only'' (c_id ex_cat_flu)"
          "\<not> sublist ''adult_only'' (c_id ex_kennel_cough)"
          "\<not> sublist ''feline_only'' (c_id ex_kennel_cough)"
          "\<not> sublist ''canine_only'' (c_id ex_kennel_cough)"
    by code_simp+
  have d: "(''cat'' :: string) \<notin> {''dog'', ''bird'', ''rabbit''}"
          "(''dog'' :: string) \<in> {''dog'', ''bird'', ''rabbit''}"
          "(''dog'' :: string) \<notin> {''cat'', ''bird'', ''rabbit''}"
    by simp_all
  have 1: "apply_exclusion_rules [ex_flu, ex_cold, ex_cat_flu, ex_kennel_cough] [''cough'']
             ex_kitten = [ex_cold, ex_cat_flu, ex_kennel_cough]"
    unfolding apply_exclusion_rules_filter
    by (simp only: l a i d filter.simps simp_thms if_True if_False)
  have 2: "apply_exclusion_rules [ex_flu, ex_cold, ex_cat_flu, ex_kennel_cough] [''cough'']
             ex_dog = [ex_flu, ex_cold, ex_kennel_cough]"
    unfolding apply_exclusion_rules_filter
    by (simp only: l a i d filter.simps simp_thms if_True if_False)
  from 1 2 show ?thesis by (rule conjI)
qed



text \<open>
  C4. In a diagnosis that is not an emergency, the returned conditions are the first three
  of the kept records. The kept records are exactly the score records (one per condition
  left by the exclusion rules, in that order) whose adjusted confidence is at least the
  threshold of their own condition, each as often as it was scored; they are in
  descending order of confidence; and the records of any one confidence value are in the
  order they had after the exclusion filtering.
\<close>

theorem diagnose_conditions_ranked:
  assumes "\<not> fst (check_emergency_conditions (reported_symptoms session) (pet session))"
  shows "result_conditions (diagnose kb session) = take 3 (probable_conditions kb session) \<and>
         length (result_conditions (diagnose kb session)) \<le> 3 \<and>
         mset (probable_conditions kb session) =
           filter_mset (\<lambda>sc. confidence sc \<ge> confidence_threshold (condition sc))
             (mset (condition_scores kb session)) \<and>
         sorted_wrt (\<lambda>a b. confidence a \<ge> confidence b) (probable_conditions kb session) \<and>
         (\<forall>k. filter (\<lambda>sc. confidence sc = k) (probable_conditions kb session) =
               filter (\<lambda>sc. confidence sc = k \<and>
                             confidence sc \<ge> confidence_threshold (condition sc))
                      (condition_scores kb session)) \<and>
         condition_scores kb session =
           map (score_condition
                  (apply_pet_specific_rules kb (pet session) (reported_symptoms session))
                  (reported_symptoms session))
               (apply_exclusion_rules
                  (get_conditions_for_symptoms kb (reported_symptoms session))
                  (reported_symptoms session) (pet session))"
proof -
  have 1: "result_conditions (diagnose kb session) = take 3 (probable_conditions kb session)"
    by (simp add: diagnose_normal [OF assms])
  then have 2: "length (result_conditions (diagnose kb session)) \<le> 3"
    by simp
  have 3: "mset (probable_conditions kb session) =
           filter_mset (\<lambda>sc. confidence sc \<ge> confidence_threshold (condition sc))
             (mset (condition_scores kb session))"
    by (simp add: probable_conditions_def sort_by_confidence_desc_def meets_threshold_def)
  have 4: "sorted_wrt (\<lambda>a b. confidence a \<ge> confidence b) (probable_conditions kb session)"
    unfolding probable_conditions_def
    by (rule sorted_wrt_filter) (rule sorted_desc_sort_by_confidence)
  have 5: "filter (\<lambda>sc. confidence sc = k) (probable_conditions kb session) =
           filter (\<lambda>sc. confidence sc = k \<and>
                         confidence sc \<ge> confidence_threshold (condition sc))
                  (condition_scores kb session)" for k
  proof -
    have "filter (\<lambda>sc. confidence sc = k) (probable_conditions kb session) =
          filter meets_threshold
            (filter (\<lambda>sc. confidence sc = k)
               (sort_by_confidence_desc (condition_scores kb session)))"
      by (simp add: probable_conditions_def conj_commute)
    also have "\<dots> = filter meets_threshold
                       (filter (\<lambda>sc. confidence sc = k) (condition_scores kb session))"
      by (simp only: stable_sort_by_confidence)
    also have "\<dots> = filter (\<lambda>sc. confidence sc = k \<and>
                                   confidence sc \<ge> confidence_threshold (condition sc))
                            (condition_scores kb session)"
      by (simp add: meets_threshold_def conj_commute)
    finally show ?thesis .
  qed
  from 1 2 3 4 5 condition_scores_map [of kb session] show ?thesis by blast
qed

theorem diagnose_conditions_ranked_witness:
  "\<not> fst (check_emergency_conditions (reported_symptoms (ex_session ex_dog [''cough''] ''s1'' 17))
            (pet (ex_session ex_dog [''cough''] ''s1'' 17))) \<and>
   map (\<lambda>sc. (c_id (condition sc), confidence sc))
       (condition_scores ex_kb (ex_session ex_dog [''cough''] ''s1'' 17)) =
     [(''cold'', 1), (''kennel_cough'', 1), (''allergy'', 0), (''bronchitis'', 2 / 3),
      (''stress'', 1), (''flu_adult_only'', 1)] \<and>
   map (\<lambda>sc. (c_id (condition sc), confidence sc))
       (probable_conditions ex_kb (ex_session ex_dog [''cough''] ''s1'' 17)) =
     [(''cold'', 1), (''kennel_cough'', 1), (''stress'', 1), (''flu_adult_only'', 1),
      (''bronchitis'', 2 / 3)] \<and>
   map (\<lambda>sc. (c_id (condition sc), confidence sc))
       (result_conditions (diagnose ex_kb (ex_session ex_dog [''cough''] ''s1'' 17))) =
     [(''cold'', 1), (''kennel_cough'', 1), (''stress'', 1)]"
proof -
  have h: "\<not> fst (check_emergency_conditions
                    (reported_symptoms (ex_session ex_dog [''cough''] ''s1'' 17))
                    (pet (ex_session ex_dog [''cough''] ''s1'' 17)))"
    by (simp add: check_emergency_conditions_eq ex_session_def emergency_symptoms_def)
  have s: "map (\<lambda>sc. (c_id (condition sc), confidence sc))
             (condition_scores ex_kb (ex_session ex_dog [''cough''] ''s1'' 17)) =
           [(''cold'', 1), (''kennel_cough'', 1), (''allergy'', 0), (''bronchitis'', 2 / 3),
            (''stress'', 1), (''flu_adult_only'', 1)]"
    by code_simp
  have p: "map (\<lambda>sc. (c_id (condition sc), confidence sc))
             (probable_conditions ex_kb (ex_session ex_dog [''cough''] ''s1'' 17)) =
           [(''cold'', 1), (''kennel_cough'', 1), (''stress'', 1), (''flu_adult_only'', 1),
            (''bronchitis'', 2 / 3)]"
    by code_simp
  have "result_conditions (diagnose ex_kb (ex_session ex_dog [''cough''] ''s1'' 17)) =
          take 3 (probable_conditions ex_kb (ex_session ex_dog [''cough''] ''s1'' 17))"
    using diagnose_conditions_ranked [OF h, of ex_kb] by blast
  then have "map (\<lambda>sc. (c_id (condition sc), confidence sc))
               (result_conditions (diagnose ex_kb (ex_session ex_dog [''cough''] ''s1'' 17))) =
             take 3 (map (\<lambda>sc. (c_id (condition sc), confidence sc))
               (probable_conditions ex_kb (ex_session ex_dog [''cough''] ''s1'' 17)))"
    by (simp only: take_map)
  then have r: "map (\<lambda>sc. (c_id (condition sc), confidence sc))
               (result_conditions (diagnose ex_kb (ex_session ex_dog [''cough''] ''s1'' 17))) =
             [(''cold'', 1), (''kennel_cough'', 1), (''stress'', 1)]"
    unfolding p by simp
  from h s p r show ?thesis by blast
qed

text \<open>
  C8, as the claim states it, fails in its last clause: the result is not a function of the
  set of reported symptoms. Two sessions that differ only in the order of two emergency
  symptoms get the alerts in different orders.
\<close>

theorem diagnose_symptom_order_counterexample:
  "pet (ex_session ex_dog [''seizures'', ''unconscious''] ''s1'' 17) =
     pet (ex_session ex_dog [''unconscious'', ''seizures''] ''s1'' 17) \<and>
   set (reported_symptoms (ex_session ex_dog [''seizures'', ''unconscious''] ''s1'' 17)) =
     set (reported_symptoms (ex_session ex_dog [''unconscious'', ''seizures''] ''s1'' 17)) \<and>
   session_id (ex_session ex_dog [''seizures'', ''unconscious''] ''s1'' 17) =
     session_id (ex_session ex_dog [''unconscious'', ''seizures''] ''s1'' 17) \<and>
   timestamp (ex_session ex_dog [''seizures'', ''unconscious''] ''s1'' 17) =
     timestamp (ex_session ex_dog [''unconscious'', ''seizures''] ''s1'' 17) \<and>
   diagnose ex_kb (ex_session ex_dog [''seizures'', ''unconscious''] ''s1'' 17) =
     Emergency_result
       [''URGENT: Seizures requires immediate veterinary attention'',
        ''URGENT: Unconscious requires immediate veterinary attention'']
       ''SEEK IMMEDIATE VETERINARY ATTENTION'' 1 [] \<and>
   diagnose ex_kb (ex_session ex_dog [''unconscious'', ''seizures''] ''s1'' 17) =
     Emergency_result
       [''URGENT: Unconscious requires immediate veterinary attention'',
        ''URGENT: Seizures requires immediate veterinary attention'']
       ''SEEK IMMEDIATE VETERINARY ATTENTION'' 1 [] \<and>
   diagnose ex_kb (ex_session ex_dog [''seizures'', ''unconscious''] ''s1'' 17) \<noteq>
     diagnose ex_kb (ex_session ex_dog [''unconscious'', ''seizures''] ''s1'' 17)"
proof -
  have a: "emergency_alert ''seizures'' =
             ''URGENT: Seizures requires immediate veterinary attention''"
    by code_simp
  have b: "emergency_alert ''unconscious'' =
             ''URGENT: Unconscious requires immediate veterinary attention''"
    by code_simp
  have t: "''seizures'' \<in> fst ` set emergency_symptoms"
          "''unconscious'' \<in> fst ` set emergency_symptoms"
    by (simp_all add: emergency_symptoms_def)
  have 1: "diagnose ex_kb (ex_session ex_dog [''seizures'', ''unconscious''] ''s1'' 17) =
     Emergency_result
       [''URGENT: Seizures requires immediate veterinary attention'',
        ''URGENT: Unconscious requires immediate veterinary attention'']
       ''SEEK IMMEDIATE VETERINARY ATTENTION'' 1 []"
    by (simp add: diagnose_def check_emergency_conditions_eq ex_session_def t a b)
  have 2: "diagnose ex_kb (ex_session ex_dog [''unconscious'', ''seizures''] ''s1'' 17) =
     Emergency_result
       [''URGENT: Unconscious requires immediate veterinary attention'',
        ''URGENT: Seizures requires immediate veterinary attention'']
       ''SEEK IMMEDIATE VETERINARY ATTENTION'' 1 []"
    by (simp add: diagnose_def check_emergency_conditions_eq ex_session_def t a b)
  have 3: "diagnose ex_kb (ex_session ex_dog [''seizures'', ''unconscious''] ''s1'' 17) \<noteq>
     diagnose ex_kb (ex_session ex_dog [''unconscious'', ''seizures''] ''s1'' 17)"
    unfolding 1 2 by simp
  have 4: "pet (ex_session ex_dog [''seizures'', ''unconscious''] ''s1'' 17) =
     pet (ex_session ex_dog [''unconscious'', ''seizures''] ''s1'' 17)"
    "set (reported_symptoms (ex_session ex_dog [''seizures'', ''unconscious''] ''s1'' 17)) =
     set (reported_symptoms (ex_session ex_dog [''unconscious'', ''seizures''] ''s1'' 17))"
    "session_id (ex_session ex_dog [''seizures'', ''unconscious''] ''s1'' 17) =
     session_id (ex_session ex_dog [''unconscious'', ''seizures''] ''s1'' 17)"
    "timestamp (ex_session ex_dog [''seizures'', ''unconscious''] ''s1'' 17) =
     timestamp (ex_session ex_dog [''unconscious'', ''seizures''] ''s1'' 17)"
    by (auto simp: ex_session_def)
  from 4 1 2 3 show ?thesis by (intro conjI)
qed

text \<open>
  C8 (amended). Two sessions with the same pet and the same set of reported symptoms get,
  from the same knowledge base, results that agree on the emergency flag, the conditions
  and the explanation. When the result is normal they agree on the recommendations, the
  pet-specific notes and the follow-up questions as well: the result of the second session
  is that of the first with the second session's id and timestamp in place of the first's.
  When the result is an emergency they agree on the recommendation, the confidence and the
  set of alerts; the list of alerts follows the list of reported symptoms. When the two
  lists of reported symptoms are the same, an emergency result is the same outright, so
  that the results of the two sessions differ in session id and timestamp only.
\<close>

theorem diagnose_deterministic:
  assumes "pet s1 = pet s2" and "set (reported_symptoms s1) = set (reported_symptoms s2)"
  shows "emergency (diagnose kb s1) = emergency (diagnose kb s2) \<and>
         result_conditions (diagnose kb s1) = result_conditions (diagnose kb s2) \<and>
         explain_reasoning fmt (diagnose kb s1) = explain_reasoning fmt (diagnose kb s2) \<and>
         (\<not> emergency (diagnose kb s1) \<longrightarrow>
            recommendations (diagnose kb s1) = recommendations (diagnose kb s2) \<and>
            pet_specific_notes (diagnose kb s1) = pet_specific_notes (diagnose kb s2) \<and>
            follow_up_questions (diagnose kb s1) = follow_up_questions (diagnose kb s2) \<and>
            diagnose kb s2 =
              Normal_result
                (result_conditions (diagnose kb s1))
                (recommendations (diagnose kb s1))
                (pet_specific_notes (diagnose kb s1))
                (follow_up_questions (diagnose kb s1))
                (session_id s2)
                (timestamp s2)) \<and>
         (emergency (diagnose kb s1) \<longrightarrow>
            recommendation (diagnose kb s1) = recommendation (diagnose kb s2) \<and>
            result_confidence (diagnose kb s1) = result_confidence (diagnose kb s2) \<and>
            set (alerts (diagnose kb s1)) = set (alerts (diagnose kb s2)) \<and>
            alerts (diagnose kb s1) =
              map emergency_alert
                (filter (\<lambda>s. s \<in> fst ` set emergency_symptoms) (reported_symptoms s1)) \<and>
            alerts (diagnose kb s2) =
              map emergency_alert
                (filter (\<lambda>s. s \<in> fst ` set emergency_symptoms) (reported_symptoms s2))) \<and>
         (reported_symptoms s1 = reported_symptoms s2 \<longrightarrow>
            recommendations (diagnose kb s1) = recommendations (diagnose kb s2) \<and>
            pet_specific_notes (diagnose kb s1) = pet_specific_notes (diagnose kb s2) \<and>
            follow_up_questions (diagnose kb s1) = follow_up_questions (diagnose kb s2) \<and>
            (emergency (diagnose kb s1) \<longrightarrow> diagnose kb s2 = diagnose kb s1))"
proof (cases "fst (check_emergency_conditions (reported_symptoms s1) (pet s1))")
  case True
  then have t2: "fst (check_emergency_conditions (reported_symptoms s2) (pet s2))"
    using assms(2) by (simp add: check_emergency_conditions_eq)
  have e: "emergency (diagnose kb s1)" "emergency (diagnose kb s2)"
    using True t2 by (simp_all add: emergency_diagnose_iff)
  have d1: "diagnose kb s1 =
              Emergency_result
                (map emergency_alert
                   (filter (\<lambda>s. s \<in> fst ` set emergency_symptoms) (reported_symptoms s1)))
                ''SEEK IMMEDIATE VETERINARY ATTENTION'' 1 []"
    by (simp add: diagnose_emergency [OF True] check_emergency_conditions_eq)
  have d2: "diagnose kb s2 =
              Emergency_result
                (map emergency_alert
                   (filter (\<lambda>s. s \<in> fst ` set emergency_symptoms) (reported_symptoms s2)))
                ''SEEK IMMEDIATE VETERINARY ATTENTION'' 1 []"
    by (simp add: diagnose_emergency [OF t2] check_emergency_conditions_eq)
  have s: "set (alerts (diagnose kb s1)) = set (alerts (diagnose kb s2))"
    unfolding d1 d2 by (simp add: assms(2))
  have l: "diagnose kb s2 = diagnose kb s1" if "reported_symptoms s1 = reported_symptoms s2"
    unfolding d1 d2 using that by simp
  have x: "explain_reasoning fmt (diagnose kb s1) = explain_reasoning fmt (diagnose kb s2)"
    using e by (simp add: explain_reasoning_def)
  have c: "result_conditions (diagnose kb s1) = result_conditions (diagnose kb s2)"
          "recommendation (diagnose kb s1) = recommendation (diagnose kb s2)"
          "result_confidence (diagnose kb s1) = result_confidence (diagnose kb s2)"
          "alerts (diagnose kb s1) =
             map emergency_alert
               (filter (\<lambda>s. s \<in> fst ` set emergency_symptoms) (reported_symptoms s1))"
          "alerts (diagnose kb s2) =
             map emergency_alert
               (filter (\<lambda>s. s \<in> fst ` set emergency_symptoms) (reported_symptoms s2))"
    unfolding d1 d2 by simp_all
  from e s l x c show ?thesis by metis
next
  case False
  then have f2: "\<not> fst (check_emergency_conditions (reported_symptoms s2) (pet s2))"
    using assms(2) by (simp add: check_emergency_conditions_eq)
  have e: "\<not> emergency (diagnose kb s1)" "\<not> emergency (diagnose kb s2)"
    using False f2 by (simp_all add: emergency_diagnose_iff)
  have p: "probable_conditions kb s1 = probable_conditions kb s2"
    by (simp add: probable_conditions_def condition_scores_symptom_set [OF assms])
  have d1: "diagnose kb s1 =
              Normal_result
                (take 3 (probable_conditions kb s2))
                (generate_recommendations kb (probable_conditions kb s2) (pet s2))
                (generate_pet_specific_notes (pet s2) (reported_symptoms s2))
                (generate_follow_up_questions (probable_conditions kb s2))
                (session_id s1)
                (timestamp s1)"
    by (simp add: diagnose_normal [OF False] p assms(1) generate_pet_specific_notes_def)
  note d2 = diagnose_normal [OF f2, of kb]
  have x: "explain_reasoning fmt (diagnose kb s1) = explain_reasoning fmt (diagnose kb s2)"
    unfolding d1 d2 by (simp add: explain_reasoning_def)
  have c: "result_conditions (diagnose kb s1) = result_conditions (diagnose kb s2)"
          "recommendations (diagnose kb s1) = recommendations (diagnose kb s2)"
          "pet_specific_notes (diagnose kb s1) = pet_specific_notes (diagnose kb s2)"
          "follow_up_questions (diagnose kb s1) = follow_up_questions (diagnose kb s2)"
    unfolding d1 d2 by simp_all
  have r: "diagnose kb s2 =
              Normal_result
                (result_conditions (diagnose kb s1))
                (recommendations (diagnose kb s1))
                (pet_specific_notes (diagnose kb s1))
                (follow_up_questions (diagnose kb s1))
                (session_id s2)
                (timestamp s2)"
    unfolding d1 d2 by simp
  from e x c r show ?thesis by metis
qed

theorem diagnose_deterministic_witness:
  "pet (ex_session ex_dog [''cough''] ''s1'' 17) =
     pet (ex_session ex_dog [''cough'', ''cough''] ''s2'' 99) \<and>
   set (reported_symptoms (ex_session ex_dog [''cough''] ''s1'' 17)) =
     set (reported_symptoms (ex_session ex_dog [''cough'', ''cough''] ''s2'' 99)) \<and>
   reported_symptoms (ex_session ex_dog [''cough''] ''s1'' 17) \<noteq>
     reported_symptoms (ex_session ex_dog [''cough'', ''cough''] ''s2'' 99) \<and>
   \<not> emergency (diagnose ex_kb (ex_session ex_dog [''cough''] ''s1'' 17)) \<and>
   result_session_id (diagnose ex_kb (ex_session ex_dog [''cough''] ''s1'' 17)) = ''s1'' \<and>
   diagnose ex_kb (ex_session ex_dog [''cough'', ''cough''] ''s2'' 99) =
     Normal_result
       (result_conditions (diagnose ex_kb (ex_session ex_dog [''cough''] ''s1'' 17)))
       (recommendations (diagnose ex_kb (ex_session ex_dog [''cough''] ''s1'' 17)))
       (pet_specific_notes (diagnose ex_kb (ex_session ex_dog [''cough''] ''s1'' 17)))
       (follow_up_questions (diagnose ex_kb (ex_session ex_dog [''cough''] ''s1'' 17)))
       ''s2'' 99 \<and>
   emergency (diagnose ex_kb (ex_session ex_dog [''seizures'', ''cough''] ''s1'' 17)) \<and>
   diagnose ex_kb (ex_session ex_dog [''seizures'', ''cough''] ''s2'' 99) =
     diagnose ex_kb (ex_session ex_dog [''seizures'', ''cough''] ''s1'' 17)"
proof -
  have a: "pet (ex_session ex_dog [''cough''] ''s1'' 17) =
           pet (ex_session ex_dog [''cough'', ''cough''] ''s2'' 99)"
    by (simp add: ex_session_def)
  have b: "set (reported_symptoms (ex_session ex_dog [''cough''] ''s1'' 17)) =
           set (reported_symptoms (ex_session ex_dog [''cough'', ''cough''] ''s2'' 99))"
    by (simp add: ex_session_def)
  have b': "reported_symptoms (ex_session ex_dog [''cough''] ''s1'' 17) \<noteq>
            reported_symptoms (ex_session ex_dog [''cough'', ''cough''] ''s2'' 99)"
    by (simp add: ex_session_def)
  have h: "\<not> fst (check_emergency_conditions
                    (reported_symptoms (ex_session ex_dog [''cough''] ''s1'' 17))
                    (pet (ex_session ex_dog [''cough''] ''s1'' 17)))"
    by (simp add: check_emergency_conditions_eq ex_session_def emergency_symptoms_def)
  then have e: "\<not> emergency (diagnose ex_kb (ex_session ex_dog [''cough''] ''s1'' 17))"
    by (simp add: emergency_diagnose_iff)
  have i: "result_session_id (diagnose ex_kb (ex_session ex_dog [''cough''] ''s1'' 17)) = ''s1''"
    unfolding diagnose_normal [OF h] by (simp add: ex_session_def)
  have s: "session_id (ex_session ex_dog [''cough'', ''cough''] ''s2'' 99) = ''s2''"
          "timestamp (ex_session ex_dog [''cough'', ''cough''] ''s2'' 99) = 99"
    by (simp_all add: ex_session_def)
  have "\<not> emergency (diagnose ex_kb (ex_session ex_dog [''cough''] ''s1'' 17)) \<longrightarrow>
        diagnose ex_kb (ex_session ex_dog [''cough'', ''cough''] ''s2'' 99) =
          Normal_result
            (result_conditions (diagnose ex_kb (ex_session ex_dog [''cough''] ''s1'' 17)))
            (recommendations (diagnose ex_kb (ex_session ex_dog [''cough''] ''s1'' 17)))
            (pet_specific_notes (diagnose ex_kb (ex_session ex_dog [''cough''] ''s1'' 17)))
            (follow_up_questions (diagnose ex_kb (ex_session ex_dog [''cough''] ''s1'' 17)))
            (session_id (ex_session ex_dog [''cough'', ''cough''] ''s2'' 99))
            (timestamp (ex_session ex_dog [''cough'', ''cough''] ''s2'' 99))"
    using diagnose_deterministic [OF a b, of ex_kb undefined] by blast
  with e have d: "diagnose ex_kb (ex_session ex_dog [''cough'', ''cough''] ''s2'' 99) =
          Normal_result
            (result_conditions (diagnose ex_kb (ex_session ex_dog [''cough''] ''s1'' 17)))
            (recommendations (diagnose ex_kb (ex_session ex_dog [''cough''] ''s1'' 17)))
            (pet_specific_notes (diagnose ex_kb (ex_session ex_dog [''cough''] ''s1'' 17)))
            (follow_up_questions (diagnose ex_kb (ex_session ex_dog [''cough''] ''s1'' 17)))
            ''s2'' 99"
    by (simp only: s simp_thms)
  have a2: "pet (ex_session ex_dog [''seizures'', ''cough''] ''s1'' 17) =
            pet (ex_session ex_dog [''seizures'', ''cough''] ''s2'' 99)"
    by (simp add: ex_session_def)
  have l2: "reported_symptoms (ex_session ex_dog [''seizures'', ''cough''] ''s1'' 17) =
            reported_symptoms (ex_session ex_dog [''seizures'', ''cough''] ''s2'' 99)"
    by (simp add: ex_session_def)
  then have b2: "set (reported_symptoms (ex_session ex_dog [''seizures'', ''cough''] ''s1'' 17)) =
            set (reported_symptoms (ex_session ex_dog [''seizures'', ''cough''] ''s2'' 99))"
    by (simp only:)
  have "fst (check_emergency_conditions
               (reported_symptoms (ex_session ex_dog [''seizures'', ''cough''] ''s1'' 17))
               (pet (ex_session ex_dog [''seizures'', ''cough''] ''s1'' 17)))"
    by (simp add: check_emergency_conditions_eq ex_session_def emergency_symptoms_def)
  then have e2: "emergency (diagnose ex_kb (ex_session ex_dog [''seizures'', ''cough''] ''s1'' 17))"
    by (simp add: emergency_diagnose_iff)
  have d2: "diagnose ex_kb (ex_session ex_dog [''seizures'', ''cough''] ''s2'' 99) =
            diagnose ex_kb (ex_session ex_dog [''seizures'', ''cough''] ''s1'' 17)"
    using diagnose_deterministic [OF a2 b2, of ex_kb undefined] l2 e2 by blast
  from a b b' e i d e2 d2 show ?thesis by (intro conjI)
qed




text \<open>
  C9. In a state whose rule table refers to objects of the store, a call of \<open>diagnose\<close>
  leaves the knowledge base, the session (so its pet and reported symptoms) and every
  object that was in the store before the call as they were: the catalogs and the rule
  table, read after the call, are what they were before it. The merged multipliers are
  written to a new object. The result is that of \<open>diagnose\<close> on the knowledge base as a
  value.
\<close>

theorem diagnose_never_mutates:
  assumes "allocated s"
  shows "the_kb (snd (diagnose_st s)) = the_kb s \<and>
         the_session (snd (diagnose_st s)) = the_session s \<and>
         pet (the_session (snd (diagnose_st s))) = pet (the_session s) \<and>
         reported_symptoms (the_session (snd (diagnose_st s))) =
           reported_symptoms (the_session s) \<and>
         take (length (the_store s)) (the_store (snd (diagnose_st s))) = the_store s \<and>
         (\<forall>a < length (the_store s).
            the_store (snd (diagnose_st s)) ! a = the_store s ! a) \<and>
         kb_at (the_store (snd (diagnose_st s))) (the_kb (snd (diagnose_st s))) =
           kb_at (the_store s) (the_kb s) \<and>
         fst (diagnose_st s) = diagnose (kb_at (the_store s) (the_kb s)) (the_session s)"
proof -
  from assms have al: "entries_allocated (the_store s) (species_ref (obj_rules (the_kb s)))"
    "entries_allocated (the_store s) (age_categories_ref (obj_rules (the_kb s)))"
    by (simp_all add: allocated_def)
  show ?thesis
    by (simp add: diagnose_st_eq [OF assms] kb_at_append [OF al] nth_append)
qed

theorem diagnose_never_mutates_witness:
  "allocated ex_state \<and>
   kb_at (the_store ex_state) (the_kb ex_state) = ex_kb \<and>
   kb_at (the_store (snd (diagnose_st ex_state))) (the_kb (snd (diagnose_st ex_state))) = ex_kb \<and>
   take 2 (the_store (snd (diagnose_st ex_state))) = ex_store \<and>
   the_store (snd (diagnose_st ex_state)) =
     ex_store @ [[(''cold'', 3), (''bronchitis'', 1), (''arthritis'', 2)]] \<and>
   fst (diagnose_st ex_state) = diagnose ex_kb (ex_session ex_dog [''cough''] ''s1'' 17)"
proof -
  have a: "allocated ex_state"
    by (simp add: allocated_def entries_allocated_def ex_state_def ex_kb_obj_def ex_store_def)
  have k: "kb_at (the_store ex_state) (the_kb ex_state) = ex_kb"
    by (simp add: kb_at_def rules_at_def entry_at_def ex_state_def ex_kb_obj_def ex_store_def
          ex_kb_def ex_rules_def)
  have l: "length ex_store = 2" "the_store ex_state = ex_store"
          "the_session ex_state = ex_session ex_dog [''cough''] ''s1'' 17"
    by (simp_all add: ex_state_def ex_store_def)
  have n: "the_store (snd (diagnose_st ex_state)) =
             ex_store @ [[(''cold'', 3), (''bronchitis'', 1), (''arthritis'', 2)]]"
    by code_simp
  note t = diagnose_never_mutates [OF a]
  from t have "kb_at (the_store (snd (diagnose_st ex_state))) (the_kb (snd (diagnose_st ex_state)))
                 = kb_at (the_store ex_state) (the_kb ex_state)"
    by blast
  then have 1: "kb_at (the_store (snd (diagnose_st ex_state)))
                  (the_kb (snd (diagnose_st ex_state))) = ex_kb"
    by (simp only: k)
  from t have "take (length (the_store ex_state)) (the_store (snd (diagnose_st ex_state))) =
                 the_store ex_state"
    by blast
  then have 2: "take 2 (the_store (snd (diagnose_st ex_state))) = ex_store"
    by (simp only: l)
  from t have "fst (diagnose_st ex_state) =
                 diagnose (kb_at (the_store ex_state) (the_kb ex_state)) (the_session ex_state)"
    by blast
  then have "fst (diagnose_st ex_state) = diagnose ex_kb (the_session ex_state)"
    by (simp only: k)
  then have 3: "fst (diagnose_st ex_state) =
                  diagnose ex_kb (ex_session ex_dog [''cough''] ''s1'' 17)"
    by (simp only: l)
  from a k 1 2 n 3 show ?thesis by (intro conjI)
qed

end
